theory Spec2Isabelle
  imports Complex_Main
begin

section \<open>Python values, exceptions and the built-ins the normalizers use\<close>

text \<open>
  The normalizers work on JSON-like dictionaries (FFprobe output, target format
  mappings, AI recommendations). A dictionary is an association list in insertion
  order, which is the order in which Python iterates it. JSON numbers with a
  fractional part are not part of the value type; where the source computes with
  floats (percentages, ratios, durations) the model computes with exact rationals.
\<close>

datatype pyval =
    PNone
  | PBool bool
  | PInt int
  | PStr string
  | PList "pyval list"
  | PDict "(string \<times> pyval) list"

datatype exn =
    KeyError string
  | AttributeError
  | TypeError
  | ValueError
  | RuntimeError string
  | FileNotFoundError string

definition ebind :: "exn + 'a \<Rightarrow> ('a \<Rightarrow> exn + 'b) \<Rightarrow> exn + 'b" where
  "ebind m f = (case m of Inl e \<Rightarrow> Inl e | Inr x \<Rightarrow> f x)"

fun efold :: "('a \<Rightarrow> 's \<Rightarrow> exn + 's) \<Rightarrow> 'a list \<Rightarrow> 's \<Rightarrow> exn + 's" where
  "efold f [] s = Inr s"
| "efold f (x # xs) s = ebind (f x s) (efold f xs)"

text \<open>Truthiness of a value, as \<open>if x:\<close> and \<open>not x\<close> test it.\<close>

fun truthy :: "pyval \<Rightarrow> bool" where
  "truthy PNone = False"
| "truthy (PBool b) = b"
| "truthy (PInt n) = (n \<noteq> 0)"
| "truthy (PStr s) = (s \<noteq> [])"
| "truthy (PList xs) = (xs \<noteq> [])"
| "truthy (PDict d) = (d \<noteq> [])"

text \<open>\<open>d.get(k, default)\<close> on a dictionary, and on an arbitrary value.\<close>

definition dict_get :: "(string \<times> pyval) list \<Rightarrow> string \<Rightarrow> pyval \<Rightarrow> pyval" where
  "dict_get d k dflt = (case map_of d k of None \<Rightarrow> dflt | Some v \<Rightarrow> v)"

fun py_get :: "pyval \<Rightarrow> string \<Rightarrow> pyval \<Rightarrow> exn + pyval" where
  "py_get (PDict d) k dflt = Inr (dict_get d k dflt)"
| "py_get _ k dflt = Inl AttributeError"

text \<open>\<open>x[k]\<close> with a string key.\<close>

fun py_getitem :: "pyval \<Rightarrow> string \<Rightarrow> exn + pyval" where
  "py_getitem (PDict d) k = (case map_of d k of None \<Rightarrow> Inl (KeyError k) | Some v \<Rightarrow> Inr v)"
| "py_getitem _ k = Inl TypeError"

text \<open>\<open>d[k] = v\<close>: an existing key keeps its position, a new key goes last.\<close>

fun dict_set :: "string \<Rightarrow> pyval \<Rightarrow> (string \<times> pyval) list \<Rightarrow> (string \<times> pyval) list" where
  "dict_set k v [] = [(k, v)]"
| "dict_set k v (p # ps) = (if fst p = k then (k, v) # ps else p # dict_set k v ps)"

fun py_setitem :: "pyval \<Rightarrow> string \<Rightarrow> pyval \<Rightarrow> exn + pyval" where
  "py_setitem (PDict d) k v = Inr (PDict (dict_set k v d))"
| "py_setitem _ k v = Inl TypeError"

text \<open>
  \<open>target.update(value)\<close>. A dictionary argument is merged key by key. Any other
  argument is reported as the \<open>TypeError\<close> that Python raises for an argument that
  is not a mapping and not iterable; sequences of pairs are not modelled.
\<close>

fun py_update :: "pyval \<Rightarrow> pyval \<Rightarrow> exn + pyval" where
  "py_update (PDict d) (PDict u) = Inr (PDict (fold (\<lambda>(k, v). dict_set k v) u d))"
| "py_update (PDict d) _ = Inl TypeError"
| "py_update _ _ = Inl AttributeError"

text \<open>Substring test, for \<open>k in s\<close> on strings.\<close>

fun is_substring :: "string \<Rightarrow> string \<Rightarrow> bool" where
  "is_substring sub [] = (sub = [])"
| "is_substring sub (c # cs) = (take (length sub) (c # cs) = sub \<or> is_substring sub cs)"

text \<open>\<open>k in x\<close> with a string \<open>k\<close>.\<close>

fun py_contains :: "string \<Rightarrow> pyval \<Rightarrow> exn + bool" where
  "py_contains k (PDict d) = Inr (k \<in> set (map fst d))"
| "py_contains k (PList xs) = Inr (PStr k \<in> set xs)"
| "py_contains k (PStr s) = Inr (is_substring k s)"
| "py_contains k _ = Inl TypeError"

fun is_dict :: "pyval \<Rightarrow> bool" where
  "is_dict (PDict d) = True"
| "is_dict _ = False"

text \<open>
  \<open>s.lower()\<close>. Strings are sequences of bytes here, so only the ASCII letters
  have a lower case; every other character is left as it is.
\<close>

definition lower_char :: "char \<Rightarrow> char" where
  "lower_char c =
     (case map_of (zip ''ABCDEFGHIJKLMNOPQRSTUVWXYZ'' ''abcdefghijklmnopqrstuvwxyz'') c of
        None \<Rightarrow> c | Some l \<Rightarrow> l)"

fun py_lower :: "pyval \<Rightarrow> exn + string" where
  "py_lower (PStr s) = Inr (map lower_char s)"
| "py_lower _ = Inl AttributeError"

subsection \<open>Decimal integers: \<open>int(s)\<close> and \<open>str(n)\<close>\<close>

text \<open>The ASCII white space that \<open>int\<close>, \<open>float\<close> and \<open>strip\<close> skip.\<close>

definition is_space :: "char \<Rightarrow> bool" where
  "is_space c =
     (let n = (of_char c :: nat)
      in (9 \<le> n \<and> n \<le> 13) \<or> (28 \<le> n \<and> n \<le> 32))"

definition is_digit :: "char \<Rightarrow> bool" where
  "is_digit c = (let n = (of_char c :: nat) in 48 \<le> n \<and> n \<le> 57)"

definition digit_val :: "char \<Rightarrow> nat" where
  "digit_val c = (of_char c :: nat) - 48"

definition strip :: "string \<Rightarrow> string" where
  "strip s = rev (dropWhile is_space (rev (dropWhile is_space s)))"

text \<open>
  The digits of a literal, most significant first, with the accumulator \<open>acc\<close>.
  Python allows one underscore between two digits; \<open>prev\<close> tells whether the
  previous character was a digit.
\<close>

fun parse_digits :: "bool \<Rightarrow> nat \<Rightarrow> string \<Rightarrow> nat option" where
  "parse_digits prev acc [] = (if prev then Some acc else None)"
| "parse_digits prev acc (c # cs) =
     (if is_digit c then parse_digits True (acc * 10 + digit_val c) cs
      else if c = CHR ''_'' \<and> prev then parse_digits False acc cs
      else None)"

definition parse_int :: "string \<Rightarrow> int option" where
  "parse_int s =
     (case strip s of
        [] \<Rightarrow> None
      | c # cs \<Rightarrow>
          if c = CHR ''-'' then map_option (\<lambda>n. - int n) (parse_digits False 0 cs)
          else if c = CHR ''+'' then map_option int (parse_digits False 0 cs)
          else map_option int (parse_digits False 0 (c # cs)))"

fun py_int :: "pyval \<Rightarrow> exn + int" where
  "py_int (PInt n) = Inr n"
| "py_int (PBool b) = Inr (if b then 1 else 0)"
| "py_int (PStr s) = (case parse_int s of None \<Rightarrow> Inl ValueError | Some n \<Rightarrow> Inr n)"
| "py_int _ = Inl TypeError"

definition digit_char :: "nat \<Rightarrow> char" where
  "digit_char d = ''0123456789'' ! d"

fun str_nat :: "nat \<Rightarrow> string" where
  "str_nat n =
     (if n < 10 then [digit_char n]
      else str_nat (n div 10) @ [digit_char (n mod 10)])"

declare str_nat.simps [simp del]

definition str_int :: "int \<Rightarrow> string" where
  "str_int i = (if i < 0 then CHR ''-'' # str_nat (nat (- i)) else str_nat (nat i))"

subsection \<open>\<open>str(x)\<close>\<close>

text \<open>
  \<open>repr\<close> of a string picks double quotes when the string holds a single quote and
  no double quote, and escapes the backslash, the chosen quote, newline, carriage
  return and tab. Other characters are copied as they are.
\<close>

definition esc_char :: "char \<Rightarrow> char \<Rightarrow> string" where
  "esc_char q c =
     (if c = CHR 0x5C then [CHR 0x5C, CHR 0x5C]
      else if c = q then [CHR 0x5C, q]
      else if c = CHR 0x0A then [CHR 0x5C, CHR ''n'']
      else if c = CHR 0x0D then [CHR 0x5C, CHR ''r'']
      else if c = CHR 0x09 then [CHR 0x5C, CHR ''t'']
      else [c])"

definition repr_str :: "string \<Rightarrow> string" where
  "repr_str s =
     (let q = (if CHR 0x27 \<in> set s \<and> CHR 0x22 \<notin> set s then CHR 0x22 else CHR 0x27)
      in q # concat (map (esc_char q) s) @ [q])"

fun join :: "string \<Rightarrow> string list \<Rightarrow> string" where
  "join sep [] = []"
| "join sep [x] = x"
| "join sep (x # y # ys) = x @ sep @ join sep (y # ys)"

fun py_repr :: "pyval \<Rightarrow> string" where
  "py_repr PNone = ''None''"
| "py_repr (PBool b) = (if b then ''True'' else ''False'')"
| "py_repr (PInt n) = str_int n"
| "py_repr (PStr s) = repr_str s"
| "py_repr (PList xs) = ''['' @ join '', '' (map py_repr xs) @ '']''"
| "py_repr (PDict d) =
     ''{'' @ join '', '' (map (\<lambda>p. repr_str (fst p) @ '': '' @ py_repr (snd p)) d) @ ''}''"

fun py_str :: "pyval \<Rightarrow> string" where
  "py_str (PStr s) = s"
| "py_str v = py_repr v"

section \<open>Parameter resolution (\<open>format_normalizer/normalizer.py\<close>)\<close>

text \<open>\<open>_get_default_codec\<close>: the format to codec table, \<open>h264\<close> for an unknown format.\<close>

definition format_codec_map :: "(string \<times> string) list" where
  "format_codec_map =
     [(''mp4'', ''h264''), (''mov'', ''prores''), (''mkv'', ''h265''), (''webm'', ''vp9''),
      (''avi'', ''h264''), (''mxf'', ''dnxhd''), (''mp3'', ''mp3''), (''wav'', ''pcm_s16le''),
      (''aac'', ''aac''), (''flac'', ''flac''), (''ogg'', ''vorbis''), (''m4a'', ''aac''),
      (''jpg'', ''mjpeg''), (''png'', ''png''), (''tiff'', ''tiff''), (''webp'', ''webp''),
      (''avif'', ''libaom-av1'')]"

definition get_default_codec :: "string \<Rightarrow> string" where
  "get_default_codec format_type =
     (case map_of format_codec_map (map lower_char format_type) of
        None \<Rightarrow> ''h264'' | Some c \<Rightarrow> c)"

definition is_x264 :: "pyval \<Rightarrow> bool" where
  "is_x264 codec = (codec = PStr ''h264'' \<or> codec = PStr ''libx264'')"

text \<open>The preset table of \<open>_prepare_format_parameters\<close>, in the source's branch order.\<close>

definition preset_parameters :: "string \<Rightarrow> string \<Rightarrow> pyval \<Rightarrow> (string \<times> pyval) list" where
  "preset_parameters preset format_type codec =
     (if preset = ''web'' then
        [(''video'', PDict [(''crf'', PInt (if is_x264 codec then 23 else 28)),
                            (''preset'', PStr ''medium''),
                            (''movflags'', PStr ''+faststart'')]),
         (''audio'', PDict [(''codec'', PStr ''aac''), (''bitrate'', PStr ''128k'')])]
      else if preset = ''social'' then
        [(''video'', PDict [(''crf'', PInt (if is_x264 codec then 20 else 25)),
                            (''preset'', PStr ''medium''),
                            (''movflags'', PStr ''+faststart''),
                            (''maxrate'', PStr ''4M''),
                            (''bufsize'', PStr ''8M'')]),
         (''audio'', PDict [(''codec'', PStr ''aac''), (''bitrate'', PStr ''192k'')])]
      else if preset = ''broadcast'' then
        [(''video'', PDict [(''profile'', PStr (if codec = PStr ''prores'' then ''3'' else ''high'')),
                            (''level'', if is_x264 codec then PStr ''5.1'' else PNone),
                            (''preset'',
                               if is_x264 codec \<or> codec = PStr ''h265'' \<or> codec = PStr ''libx265''
                               then PStr ''slow'' else PNone),
                            (''pix_fmt'',
                               PStr (if codec = PStr ''prores'' then ''yuv422p10le'' else ''yuv420p''))]),
         (''audio'', PDict [(''codec'',
                               PStr (if format_type = ''mov'' \<or> format_type = ''mxf''
                                     then ''pcm_s24le'' else ''aac'')),
                            (''sample_rate'', PStr ''48000'')])]
      else if preset = ''archive'' then
        [(''video'', PDict [(''profile'', PStr (if codec = PStr ''prores'' then ''4444'' else ''high'')),
                            (''pix_fmt'',
                               PStr (if codec = PStr ''prores'' then ''yuv444p10le'' else ''yuv420p'')),
                            (''qscale'', if codec = PStr ''mjpeg'' then PStr ''1'' else PNone)]),
         (''audio'', PDict [(''codec'', PStr ''pcm_s24le''), (''sample_rate'', PStr ''48000'')])]
      else if preset = ''mobile'' then
        [(''video'', PDict [(''crf'', PInt (if is_x264 codec then 26 else 30)),
                            (''preset'', PStr ''medium''),
                            (''movflags'', PStr ''+faststart''),
                            (''maxrate'', PStr ''2M''),
                            (''bufsize'', PStr ''4M'')]),
         (''audio'', PDict [(''codec'', PStr ''aac''), (''bitrate'', PStr ''96k'')])]
      else
        [(''video'', PDict [(''crf'', PInt (if is_x264 codec then 23 else 28)),
                            (''preset'', PStr ''medium'')]),
         (''audio'', PDict [(''codec'', PStr ''aac''), (''bitrate'', PStr ''192k'')])])"

text \<open>
  One round of the override loop: a section the preset already has is updated in
  place, a section it does not have is stored as given.
\<close>

definition merge_step :: "string \<times> pyval \<Rightarrow> (string \<times> pyval) list \<Rightarrow> exn + (string \<times> pyval) list" where
  "merge_step kv ps =
     (case map_of ps (fst kv) of
        Some sect \<Rightarrow> ebind (py_update sect (snd kv)) (\<lambda>sect'. Inr (dict_set (fst kv) sect' ps))
      | None \<Rightarrow> Inr (dict_set (fst kv) (snd kv) ps))"

definition merge_overrides :: "(string \<times> pyval) list \<Rightarrow> (string \<times> pyval) list \<Rightarrow> exn + (string \<times> pyval) list" where
  "merge_overrides target_format ps =
     (case map_of target_format ''parameters'' of
        Some (PDict ov) \<Rightarrow> efold merge_step ov ps
      | _ \<Rightarrow> Inr ps)"

definition prepare_format_parameters :: "(string \<times> pyval) list \<Rightarrow> string \<Rightarrow> exn + (string \<times> pyval) list" where
  "prepare_format_parameters target_format preset =
     ebind (py_lower (dict_get target_format ''format'' (PStr ''mp4''))) (\<lambda>format_type.
       let codec0 = dict_get target_format ''codec'' (PStr []);
           codec = (if \<not> truthy codec0 then PStr (get_default_codec format_type) else codec0)
       in ebind (merge_overrides target_format (preset_parameters preset format_type codec)) (\<lambda>ps.
            Inr [(''format'', PStr format_type), (''codec'', codec),
                 (''preset'', PStr preset), (''parameters'', PDict ps)]))"

subsection \<open>\<open>_apply_ai_recommendations\<close>\<close>

text \<open>\<open>"video" in format_params["parameters"]\<close>\<close>

definition has_video_section :: "(string \<times> pyval) list \<Rightarrow> exn + bool" where
  "has_video_section fp = ebind (py_getitem (PDict fp) ''parameters'') (py_contains ''video'')"

text \<open>\<open>format_params["parameters"]["video"][key] = value\<close>\<close>

definition set_video_param :: "string \<Rightarrow> pyval \<Rightarrow> (string \<times> pyval) list \<Rightarrow> exn + (string \<times> pyval) list" where
  "set_video_param key v fp =
     ebind (py_getitem (PDict fp) ''parameters'') (\<lambda>ps.
     ebind (py_getitem ps ''video'') (\<lambda>vid.
     ebind (py_setitem vid key v) (\<lambda>vid'.
     ebind (py_setitem ps ''video'' vid') (\<lambda>ps'.
       Inr (dict_set ''parameters'' ps' fp)))))"

text \<open>
  \<open>k in recommendations and isinstance(recommendations[k], ...)\<close>: the value under
  \<open>k\<close> when the membership test holds.
\<close>

definition rec_field :: "pyval \<Rightarrow> string \<Rightarrow> exn + pyval option" where
  "rec_field r k =
     ebind (py_contains k r) (\<lambda>b.
       if b then ebind (py_getitem r k) (\<lambda>v. Inr (Some v)) else Inr None)"

definition codec_param_step :: "string \<times> pyval \<Rightarrow> (string \<times> pyval) list \<Rightarrow> exn + (string \<times> pyval) list" where
  "codec_param_step kv fp =
     ebind (has_video_section fp) (\<lambda>b.
       if b then set_video_param (fst kv) (snd kv) fp else Inr fp)"

definition apply_codec_parameters :: "pyval \<Rightarrow> (string \<times> pyval) list \<Rightarrow> exn + (string \<times> pyval) list" where
  "apply_codec_parameters r fp =
     ebind (rec_field r ''codec_parameters'') (\<lambda>f.
       case f of Some (PDict cp) \<Rightarrow> efold codec_param_step cp fp | _ \<Rightarrow> Inr fp)"

fun py_replace_k :: "pyval \<Rightarrow> exn + string" where
  "py_replace_k (PStr s) = Inr (concat (map (\<lambda>c. if c = CHR ''k'' then ''000'' else [c]) s))"
| "py_replace_k _ = Inl AttributeError"

text \<open>\<open>f"{int(strategy_value.replace('k', '000')) * 2}k"\<close>\<close>

definition cbr_bufsize :: "pyval \<Rightarrow> exn + pyval" where
  "cbr_bufsize strategy_value =
     ebind (py_replace_k strategy_value) (\<lambda>s.
       case parse_int s of
         None \<Rightarrow> Inl ValueError
       | Some n \<Rightarrow> Inr (PStr (str_int (n * 2) @ ''k'')))"

definition apply_bitrate_strategy :: "pyval \<Rightarrow> (string \<times> pyval) list \<Rightarrow> exn + (string \<times> pyval) list" where
  "apply_bitrate_strategy r fp =
     ebind (rec_field r ''bitrate_strategy'') (\<lambda>f.
       case f of
         Some (PDict strategy) \<Rightarrow>
           (let strategy_type = dict_get strategy ''type'' PNone;
                strategy_value = dict_get strategy ''value'' PNone
            in if truthy strategy_type \<and> truthy strategy_value then
                 ebind (has_video_section fp) (\<lambda>b.
                   if \<not> b then Inr fp
                   else if strategy_type = PStr ''CRF'' then
                     set_video_param ''crf'' strategy_value fp
                   else if strategy_type = PStr ''CBR'' then
                     ebind (set_video_param ''bitrate'' strategy_value fp) (\<lambda>fp1.
                     ebind (set_video_param ''minrate'' strategy_value fp1) (\<lambda>fp2.
                     ebind (set_video_param ''maxrate'' strategy_value fp2) (\<lambda>fp3.
                     ebind (cbr_bufsize strategy_value) (\<lambda>b.
                       set_video_param ''bufsize'' b fp3))))
                   else if strategy_type = PStr ''VBR'' then
                     set_video_param ''bitrate'' strategy_value fp
                   else Inr fp)
               else Inr fp)
       | _ \<Rightarrow> Inr fp)"

fun py_extend :: "pyval \<Rightarrow> pyval list \<Rightarrow> exn + pyval" where
  "py_extend (PList xs) ys = Inr (PList (xs @ ys))"
| "py_extend _ ys = Inl AttributeError"

definition apply_ffmpeg_options :: "pyval \<Rightarrow> (string \<times> pyval) list \<Rightarrow> exn + (string \<times> pyval) list" where
  "apply_ffmpeg_options r fp =
     ebind (rec_field r ''ffmpeg_options'') (\<lambda>f.
       case f of
         Some (PList opts) \<Rightarrow>
           ebind (py_getitem (PDict fp) ''parameters'') (\<lambda>ps.
           ebind (py_contains ''ffmpeg_options'' ps) (\<lambda>present.
           ebind (if present then Inr ps else py_setitem ps ''ffmpeg_options'' (PList [])) (\<lambda>ps1.
           ebind (py_getitem ps1 ''ffmpeg_options'') (\<lambda>cur.
           ebind (py_extend cur opts) (\<lambda>cur'.
           ebind (py_setitem ps1 ''ffmpeg_options'' cur') (\<lambda>ps2.
             Inr (dict_set ''parameters'' ps2 fp)))))))
       | _ \<Rightarrow> Inr fp)"

definition apply_ai_recommendations :: "(string \<times> pyval) list \<Rightarrow> (string \<times> pyval) list \<Rightarrow> exn + (string \<times> pyval) list" where
  "apply_ai_recommendations format_params ai_analysis =
     (let recommendations = dict_get ai_analysis ''encoding_recommendations'' (PDict [])
      in if \<not> truthy recommendations then Inr format_params
         else ebind (apply_codec_parameters recommendations format_params) (\<lambda>fp1.
              ebind (apply_bitrate_strategy recommendations fp1) (\<lambda>fp2.
                apply_ffmpeg_options recommendations fp2)))"

text \<open>
  Steps 2 and 3 of \<open>normalize\<close>: the parameters are prepared from the target format
  and the preset, and the AI analysis is applied only when AI is enabled.
\<close>

definition resolve :: "(string \<times> pyval) list \<Rightarrow> string \<Rightarrow> bool \<Rightarrow> (string \<times> pyval) list \<Rightarrow> exn + (string \<times> pyval) list" where
  "resolve target_format preset enable_ai ai_analysis =
     ebind (prepare_format_parameters target_format preset) (\<lambda>fp.
       if enable_ai then apply_ai_recommendations fp ai_analysis else Inr fp)"

text \<open>The value of \<open>format_params["parameters"][section][key]\<close>, when all three exist.\<close>

definition param_of :: "(string \<times> pyval) list \<Rightarrow> string \<Rightarrow> string \<Rightarrow> pyval option" where
  "param_of fp section key =
     (case map_of fp ''parameters'' of
        Some (PDict ps) \<Rightarrow>
          (case map_of ps section of Some (PDict s) \<Rightarrow> map_of s key | _ \<Rightarrow> None)
      | _ \<Rightarrow> None)"

definition section_keys :: "(string \<times> pyval) list \<Rightarrow> string list" where
  "section_keys fp =
     (case map_of fp ''parameters'' of Some (PDict ps) \<Rightarrow> map fst ps | _ \<Rightarrow> [])"

text \<open>Views of a resolution result, for stating what a resolved specification holds.\<close>

definition resolved_param :: "exn + (string \<times> pyval) list \<Rightarrow> string \<Rightarrow> string \<Rightarrow> pyval option" where
  "resolved_param r section key = (case r of Inl e \<Rightarrow> None | Inr fp \<Rightarrow> param_of fp section key)"

definition resolved_sections :: "exn + (string \<times> pyval) list \<Rightarrow> string list option" where
  "resolved_sections r = (case r of Inl e \<Rightarrow> None | Inr fp \<Rightarrow> Some (section_keys fp))"

section \<open>Command building (\<open>_convert_media\<close> of \<open>format_normalizer/normalizer.py\<close>)\<close>

text \<open>What a \<open>for\<close> loop or a generator iterates over.\<close>

fun py_iter :: "pyval \<Rightarrow> exn + pyval list" where
  "py_iter (PList xs) = Inr xs"
| "py_iter (PDict d) = Inr (map (\<lambda>p. PStr (fst p)) d)"
| "py_iter (PStr s) = Inr (map (\<lambda>c. PStr [c]) s)"
| "py_iter _ = Inl TypeError"

text \<open>\<open>x.items()\<close>\<close>

fun py_items :: "pyval \<Rightarrow> exn + (string \<times> pyval) list" where
  "py_items (PDict d) = Inr d"
| "py_items _ = Inl AttributeError"

text \<open>
  \<open>any(stream.get("codec_type") == ty for stream in ...)\<close>: the generator stops at the
  first stream of the type, and a stream that is not a dictionary raises when it is
  reached.
\<close>

fun any_codec_type :: "string \<Rightarrow> pyval list \<Rightarrow> exn + bool" where
  "any_codec_type ty [] = Inr False"
| "any_codec_type ty (x # xs) =
     ebind (py_get x ''codec_type'' PNone) (\<lambda>v.
       if v = PStr ty then Inr True else any_codec_type ty xs)"

definition has_stream :: "string \<Rightarrow> (string \<times> pyval) list \<Rightarrow> exn + bool" where
  "has_stream ty metadata =
     ebind (py_iter (dict_get metadata ''streams'' (PList []))) (any_codec_type ty)"

text \<open>The \<open>-c:v\<close> pair for the codec.\<close>

definition video_codec_args :: "pyval \<Rightarrow> pyval list" where
  "video_codec_args codec =
     (if codec = PStr ''h264'' then [PStr ''-c:v'', PStr ''libx264'']
      else if codec = PStr ''h265'' \<or> codec = PStr ''hevc'' then [PStr ''-c:v'', PStr ''libx265'']
      else if codec = PStr ''prores'' then [PStr ''-c:v'', PStr ''prores_ks'']
      else if codec = PStr ''av1'' then [PStr ''-c:v'', PStr ''libaom-av1'']
      else if codec = PStr ''vp9'' then [PStr ''-c:v'', PStr ''libvpx-vp9'']
      else [PStr ''-c:v'', codec])"

text \<open>One round of the loop over the video parameters, in the source's branch order.\<close>

definition video_param_args :: "(string \<times> pyval) list \<Rightarrow> pyval \<Rightarrow> string \<times> pyval \<Rightarrow> exn + pyval list" where
  "video_param_args fp codec kv =
     (let key = fst kv; v = snd kv
      in if v = PNone then Inr []
         else if key = ''crf'' then Inr [PStr ''-crf'', PStr (py_str v)]
         else if key = ''preset'' then Inr [PStr ''-preset'', PStr (py_str v)]
         else if key = ''profile'' then Inr [PStr ''-profile:v'', PStr (py_str v)]
         else if key = ''level'' \<and>
                 (codec = PStr ''h264'' \<or> codec = PStr ''libx264'' \<or>
                  codec = PStr ''h265'' \<or> codec = PStr ''libx265'')
           then Inr [PStr ''-level'', PStr (py_str v)]
         else if key = ''pix_fmt'' then Inr [PStr ''-pix_fmt'', PStr (py_str v)]
         else if key = ''maxrate'' then Inr [PStr ''-maxrate'', PStr (py_str v)]
         else if key = ''minrate'' then Inr [PStr ''-minrate'', PStr (py_str v)]
         else if key = ''bufsize'' then Inr [PStr ''-bufsize'', PStr (py_str v)]
         else if key = ''qscale'' then Inr [PStr ''-qscale:v'', PStr (py_str v)]
         else if key = ''bitrate'' then Inr [PStr ''-b:v'', PStr (py_str v)]
         else if key = ''movflags'' then
           ebind (py_getitem (PDict fp) ''format'') (\<lambda>f.
             if f = PStr ''mp4'' \<or> f = PStr ''mov'' then Inr [PStr ''-movflags'', PStr (py_str v)]
             else Inr [])
         else Inr [])"

text \<open>A loop that extends the command by what each round yields.\<close>

fun extend_each :: "('a \<Rightarrow> exn + pyval list) \<Rightarrow> 'a list \<Rightarrow> pyval list \<Rightarrow> exn + pyval list" where
  "extend_each f [] cmd = Inr cmd"
| "extend_each f (x # xs) cmd = ebind (f x) (\<lambda>ys. extend_each f xs (cmd @ ys))"

definition add_video_args :: "(string \<times> pyval) list \<Rightarrow> (string \<times> pyval) list \<Rightarrow> pyval list \<Rightarrow> exn + pyval list" where
  "add_video_args fp source_metadata cmd =
     ebind (has_stream ''video'' source_metadata) (\<lambda>has_video.
       if \<not> has_video then Inr cmd
       else
         ebind (py_getitem (PDict fp) ''parameters'') (\<lambda>ps.
         ebind (py_contains ''video'' ps) (\<lambda>present.
           if \<not> present then Inr cmd
           else
             ebind (py_getitem ps ''video'') (\<lambda>video_params.
             ebind (py_getitem (PDict fp) ''codec'') (\<lambda>codec.
             ebind (py_items video_params) (\<lambda>items.
               extend_each (video_param_args fp codec) items (cmd @ video_codec_args codec)))))))"

definition audio_param_args :: "string \<times> pyval \<Rightarrow> exn + pyval list" where
  "audio_param_args kv =
     (let key = fst kv; v = snd kv
      in if v \<noteq> PNone \<and> key \<noteq> ''codec'' then
           (if key = ''bitrate'' then Inr [PStr ''-b:a'', PStr (py_str v)]
            else if key = ''sample_rate'' then Inr [PStr ''-ar'', PStr (py_str v)]
            else if key = ''channels'' then Inr [PStr ''-ac'', PStr (py_str v)]
            else Inr [])
         else Inr [])"

definition add_audio_args :: "(string \<times> pyval) list \<Rightarrow> (string \<times> pyval) list \<Rightarrow> pyval list \<Rightarrow> exn + pyval list" where
  "add_audio_args fp source_metadata cmd =
     ebind (has_stream ''audio'' source_metadata) (\<lambda>has_audio.
       if \<not> has_audio then Inr cmd
       else
         ebind (py_getitem (PDict fp) ''parameters'') (\<lambda>ps.
         ebind (py_contains ''audio'' ps) (\<lambda>present.
           if \<not> present then Inr cmd
           else
             ebind (py_getitem ps ''audio'') (\<lambda>audio_params.
             ebind (py_contains ''codec'' audio_params) (\<lambda>has_codec.
             ebind (if has_codec
                    then ebind (py_getitem audio_params ''codec'') (\<lambda>c. Inr (cmd @ [PStr ''-c:a'', c]))
                    else Inr cmd) (\<lambda>cmd1.
             ebind (py_items audio_params) (\<lambda>items.
               extend_each audio_param_args items cmd1)))))))"

definition add_custom_options :: "(string \<times> pyval) list \<Rightarrow> pyval list \<Rightarrow> exn + pyval list" where
  "add_custom_options fp cmd =
     ebind (py_getitem (PDict fp) ''parameters'') (\<lambda>ps.
     ebind (py_contains ''ffmpeg_options'' ps) (\<lambda>present.
       if \<not> present then Inr cmd
       else
         ebind (py_getitem ps ''ffmpeg_options'') (\<lambda>opts.
         ebind (py_iter opts) (\<lambda>os.
           Inr (cmd @ map (\<lambda>option. PStr (py_str option)) os)))))"

definition add_output_format :: "(string \<times> pyval) list \<Rightarrow> pyval list \<Rightarrow> exn + pyval list" where
  "add_output_format fp cmd =
     ebind (py_getitem (PDict fp) ''format'') (\<lambda>f.
       if truthy f then Inr (cmd @ [PStr ''-f'', f]) else Inr cmd)"

text \<open>
  \<open>' '.join(ffmpeg_cmd)\<close> in the log line raises \<open>TypeError\<close> when an argument is not a
  string; otherwise the command goes to the encoder as it is.
\<close>

fun the_strings :: "pyval list \<Rightarrow> exn + string list" where
  "the_strings [] = Inr []"
| "the_strings (PStr s # xs) = ebind (the_strings xs) (\<lambda>ss. Inr (s # ss))"
| "the_strings (_ # xs) = Inl TypeError"

text \<open>
  The argument list that \<open>_convert_media\<close> builds, up to the point where it is handed
  to the encoder. Creating the directory of the output path, which comes first in the
  source, is an effect on the file system and is left out.
\<close>

definition build_command :: "string \<Rightarrow> string \<Rightarrow> (string \<times> pyval) list \<Rightarrow> (string \<times> pyval) list \<Rightarrow> exn + string list" where
  "build_command source_path output_path fp source_metadata =
     ebind (add_video_args fp source_metadata
              [PStr ''ffmpeg'', PStr ''-y'', PStr ''-i'', PStr source_path]) (\<lambda>cmd1.
     ebind (add_audio_args fp source_metadata cmd1) (\<lambda>cmd2.
     ebind (add_custom_options fp cmd2) (\<lambda>cmd3.
     ebind (add_output_format fp cmd3) (\<lambda>cmd4.
       the_strings (cmd4 @ [PStr output_path])))))"

text \<open>The flags that only the audio branch of the builder writes.\<close>

definition audio_flags :: "string list" where
  "audio_flags = [''-c:a'', ''-b:a'', ''-ar'', ''-ac'']"

section \<open>Command building in \<open>src/normalizer.py\<close> (\<open>_build_ffmpeg_command\<close>)\<close>

text \<open>
  The second builder takes the encoding parameters (sections \<open>video\<close> and \<open>audio\<close>) and
  no source descriptor. \<open>hwaccel\<close> is the configuration flag
  \<open>use_hardware_acceleration\<close>.
\<close>

definition prores_profile_map :: "(string \<times> string) list" where
  "prores_profile_map =
     [(''proxy'', ''0''), (''lt'', ''1''), (''standard'', ''2''),
      (''hq'', ''3''), (''4444'', ''4''), (''4444xq'', ''5'')]"

text \<open>\<open>profile_map.get(profile, "2")\<close>: a list or a dictionary is not hashable.\<close>

fun prores_profile_index :: "pyval \<Rightarrow> exn + pyval" where
  "prores_profile_index (PStr p) =
     Inr (PStr (case map_of prores_profile_map p of None \<Rightarrow> ''2'' | Some i \<Rightarrow> i))"
| "prores_profile_index (PList xs) = Inl TypeError"
| "prores_profile_index (PDict d) = Inl TypeError"
| "prores_profile_index _ = Inr (PStr ''2'')"

definition src_video_args :: "pyval \<Rightarrow> exn + pyval list" where
  "src_video_args video_params =
     (if \<not> truthy video_params then Inr []
      else
        ebind (py_get video_params ''codec'' PNone) (\<lambda>video_codec.
          let c = (if truthy video_codec then [PStr ''-c:v'', video_codec] else [])
          in if video_codec = PStr ''h264'' \<or> video_codec = PStr ''h265'' then
               ebind (py_get video_params ''crf'' (PInt 23)) (\<lambda>crf.
               ebind (py_get video_params ''preset'' (PStr ''medium'')) (\<lambda>preset.
                 Inr (c @ [PStr ''-crf'', PStr (py_str crf), PStr ''-preset'', preset])))
             else if video_codec = PStr ''prores'' then
               ebind (py_get video_params ''profile'' (PStr ''standard'')) (\<lambda>profile.
               ebind (prores_profile_index profile) (\<lambda>i.
                 Inr (c @ [PStr ''-profile:v'', i])))
             else if video_codec = PStr ''vp9'' then
               ebind (py_get video_params ''crf'' (PInt 30)) (\<lambda>crf.
                 Inr (c @ [PStr ''-crf'', PStr (py_str crf), PStr ''-b:v'', PStr ''0'']))
             else if video_codec = PStr ''av1'' then
               ebind (py_get video_params ''crf'' (PInt 30)) (\<lambda>crf.
                 Inr (c @ [PStr ''-crf'', PStr (py_str crf), PStr ''-b:v'', PStr ''0'']))
             else Inr c))"

definition src_audio_args :: "pyval \<Rightarrow> exn + pyval list" where
  "src_audio_args audio_params =
     (if \<not> truthy audio_params then Inr []
      else
        ebind (py_get audio_params ''codec'' PNone) (\<lambda>audio_codec.
          let c = (if truthy audio_codec then [PStr ''-c:a'', audio_codec] else [])
          in if audio_codec = PStr ''aac'' \<or> audio_codec = PStr ''mp3'' \<or> audio_codec = PStr ''opus'' then
               ebind (py_get audio_params ''bitrate'' (PStr ''128k'')) (\<lambda>bitrate.
                 Inr (c @ [PStr ''-b:a'', bitrate]))
             else Inr c))"

definition src_build_ffmpeg_command :: "bool \<Rightarrow> string \<Rightarrow> string \<Rightarrow> (string \<times> pyval) list \<Rightarrow> bool \<Rightarrow> exn + pyval list" where
  "src_build_ffmpeg_command hwaccel input_path output_path encoding_params preserve_metadata =
     (let cmd = [PStr ''ffmpeg'', PStr ''-y'', PStr ''-i'', PStr input_path]
                @ (if hwaccel then [PStr ''-hwaccel'', PStr ''auto''] else [])
      in ebind (src_video_args (dict_get encoding_params ''video'' (PDict []))) (\<lambda>va.
         ebind (src_audio_args (dict_get encoding_params ''audio'' (PDict []))) (\<lambda>aa.
           Inr (cmd @ va @ aa
                @ (if preserve_metadata then [PStr ''-map_metadata'', PStr ''0''] else [])
                @ [PStr output_path]))))"

section \<open>Numbers read as floats\<close>

text \<open>
  \<open>float(x)\<close> is modelled by an exact rational: a decimal literal with an optional
  fraction and an optional exponent denotes the rational it is written as. Binary
  rounding is not modelled, and the literals \<open>inf\<close>, \<open>infinity\<close> and \<open>nan\<close>, which
  have no rational value, are rejected like a malformed literal.
\<close>

definition parse_signed :: "string \<Rightarrow> int option" where
  "parse_signed s =
     (case s of
        [] \<Rightarrow> None
      | c # cs \<Rightarrow>
          if c = CHR ''-'' then map_option (\<lambda>n. - int n) (parse_digits False 0 cs)
          else if c = CHR ''+'' then map_option int (parse_digits False 0 cs)
          else map_option int (parse_digits False 0 (c # cs)))"

definition parse_mantissa :: "string \<Rightarrow> rat option" where
  "parse_mantissa m =
     (let ip = takeWhile (\<lambda>c. c \<noteq> CHR ''.'') m;
          rest = dropWhile (\<lambda>c. c \<noteq> CHR ''.'') m
      in case rest of
           [] \<Rightarrow> map_option of_nat (parse_digits False 0 ip)
         | dot # fp \<Rightarrow>
             if ip = [] \<and> fp = [] then None
             else
               (case (if ip = [] then Some 0 else parse_digits False 0 ip,
                      if fp = [] then Some 0 else parse_digits False 0 fp) of
                  (Some a, Some b) \<Rightarrow>
                    Some (of_nat a + of_nat b / 10 ^ length (filter is_digit fp))
                | _ \<Rightarrow> None))"

definition scale10 :: "rat \<Rightarrow> int \<Rightarrow> rat" where
  "scale10 r e = (if 0 \<le> e then r * 10 ^ nat e else r / 10 ^ nat (- e))"

definition parse_unsigned_float :: "string \<Rightarrow> rat option" where
  "parse_unsigned_float s =
     (let m = takeWhile (\<lambda>c. c \<noteq> CHR ''e'' \<and> c \<noteq> CHR ''E'') s;
          rest = dropWhile (\<lambda>c. c \<noteq> CHR ''e'' \<and> c \<noteq> CHR ''E'') s
      in case rest of
           [] \<Rightarrow> parse_mantissa m
         | e # ex \<Rightarrow>
             (case (parse_mantissa m, parse_signed ex) of
                (Some r, Some k) \<Rightarrow> Some (scale10 r k)
              | _ \<Rightarrow> None))"

definition parse_float :: "string \<Rightarrow> rat option" where
  "parse_float s =
     (case strip s of
        [] \<Rightarrow> None
      | c # cs \<Rightarrow>
          if c = CHR ''-'' then map_option uminus (parse_unsigned_float cs)
          else if c = CHR ''+'' then parse_unsigned_float cs
          else parse_unsigned_float (c # cs))"

fun py_float :: "pyval \<Rightarrow> exn + rat" where
  "py_float (PInt n) = Inr (of_int n)"
| "py_float (PBool b) = Inr (if b then 1 else 0)"
| "py_float (PStr s) = (case parse_float s of None \<Rightarrow> Inl ValueError | Some r \<Rightarrow> Inr r)"
| "py_float _ = Inl TypeError"

section \<open>Output validation (\<open>_validate_output\<close> of \<open>format_normalizer/normalizer.py\<close>)\<close>

text \<open>
  An issue is one of the messages the validators append. Each constructor stands for
  one message template of the source and carries the values the template formats:
  \<^item> \<open>ExpectedFormat e g\<close>: "Expected format e, got g";
  \<^item> \<open>ExpectedVideoCodec e g\<close>: "Expected video codec e, got g";
  \<^item> \<open>ExpectedAudioCodec e g\<close>: "Expected audio codec e, got g";
  \<^item> \<open>ResolutionReduced p sw sh ow oh\<close>: "Resolution reduced by p% (sw x sh -> ow x oh)";
  \<^item> \<open>ZeroSize\<close>: "Output file has zero size";
  \<^item> \<open>SuspiciouslySmall n q\<close>: "Output file is suspiciously small (n bytes, q of source)";
  \<^item> \<open>DurationChanged p s d\<close>: "Duration changed by p% (s -> d)";
  \<^item> \<open>ValidationError e\<close>: "Validation error: " followed by the text of the exception;
  \<^item> \<open>OutputMissing\<close>, \<open>OutputEmpty\<close>, \<open>InvalidDuration\<close>, \<open>VideoCodecMismatch e g\<close>,
    \<open>AudioCodecMismatch e g\<close>: the messages of \<open>src/normalizer.py\<close>.
\<close>

datatype issue =
    ExpectedFormat string string
  | ExpectedVideoCodec string string
  | ExpectedAudioCodec string string
  | ResolutionReduced rat int int int int
  | ZeroSize
  | SuspiciouslySmall int rat
  | DurationChanged rat rat rat
  | ValidationError exn
  | OutputMissing
  | OutputEmpty
  | InvalidDuration
  | VideoCodecMismatch pyval pyval
  | AudioCodecMismatch pyval pyval

record validation =
  passed :: bool
  issues :: "issue list"

definition fail_with :: "issue \<Rightarrow> validation \<Rightarrow> validation" where
  "fail_with i v = v\<lparr>passed := False, issues := issues v @ [i]\<rparr>"

definition note_issue :: "issue \<Rightarrow> validation \<Rightarrow> validation" where
  "note_issue i v = v\<lparr>issues := issues v @ [i]\<rparr>"

text \<open>
  \<open>next((s for s in streams if s.get("codec_type") == ty), None)\<close>: the first stream
  of the type, or \<open>None\<close>.
\<close>

fun first_codec_type :: "string \<Rightarrow> pyval list \<Rightarrow> exn + pyval" where
  "first_codec_type ty [] = Inr PNone"
| "first_codec_type ty (x # xs) =
     ebind (py_get x ''codec_type'' PNone) (\<lambda>v.
       if v = PStr ty then Inr x else first_codec_type ty xs)"

definition first_stream :: "string \<Rightarrow> (string \<times> pyval) list \<Rightarrow> exn + pyval" where
  "first_stream ty metadata =
     ebind (py_iter (dict_get metadata ''streams'' (PList []))) (first_codec_type ty)"

text \<open>\<open>metadata.get("format", {}).get(key, default)\<close>\<close>

definition format_field :: "(string \<times> pyval) list \<Rightarrow> string \<Rightarrow> pyval \<Rightarrow> exn + pyval" where
  "format_field metadata key dflt = py_get (dict_get metadata ''format'' (PDict [])) key dflt"

text \<open>
  The checks, in the order of the source. Each check does all of its reading and
  converting first and changes the validation record last, so a check that raises
  leaves the record as the checks before it left it.
\<close>

definition check_format :: "(string \<times> pyval) list \<Rightarrow> (string \<times> pyval) list \<Rightarrow> validation \<Rightarrow> exn + validation" where
  "check_format output_metadata target_format v =
     ebind (format_field output_metadata ''format_name'' (PStr [])) (\<lambda>fn.
     ebind (py_lower fn) (\<lambda>output_format.
     ebind (py_lower (dict_get target_format ''format'' (PStr []))) (\<lambda>expected_format.
       if expected_format \<noteq> [] \<and> output_format \<noteq> expected_format
       then Inr (fail_with (ExpectedFormat expected_format output_format) v)
       else Inr v)))"

definition check_video_codec :: "(string \<times> pyval) list \<Rightarrow> (string \<times> pyval) list \<Rightarrow> validation \<Rightarrow> exn + validation" where
  "check_video_codec output_metadata target_format v =
     ebind (has_stream ''video'' output_metadata) (\<lambda>has_video.
       if \<not> has_video then Inr v
       else
         ebind (first_stream ''video'' output_metadata) (\<lambda>video_stream.
           if \<not> truthy video_stream then Inr v
           else
             ebind (py_get video_stream ''codec_name'' (PStr [])) (\<lambda>cn.
             ebind (py_lower cn) (\<lambda>output_codec.
             ebind (py_lower (dict_get target_format ''codec'' (PStr []))) (\<lambda>expected_codec.
               if expected_codec = ''h264'' \<and> output_codec \<notin> set [''h264'', ''libx264'']
               then Inr (fail_with (ExpectedVideoCodec ''h264'' output_codec) v)
               else if expected_codec = ''h265''
                       \<and> output_codec \<notin> set [''h265'', ''hevc'', ''libx265'']
               then Inr (fail_with (ExpectedVideoCodec ''h265/hevc'' output_codec) v)
               else Inr v)))))"

definition check_audio_codec :: "(string \<times> pyval) list \<Rightarrow> (string \<times> pyval) list \<Rightarrow> validation \<Rightarrow> exn + validation" where
  "check_audio_codec output_metadata target_format v =
     ebind (has_stream ''audio'' output_metadata) (\<lambda>has_audio.
       if \<not> has_audio then Inr v
       else
         ebind (py_getitem (PDict target_format) ''parameters'') (\<lambda>ps.
         ebind (py_contains ''audio'' ps) (\<lambda>present.
           if \<not> present then Inr v
           else
             ebind (first_stream ''audio'' output_metadata) (\<lambda>audio_stream.
               if \<not> truthy audio_stream then Inr v
               else
                 ebind (py_get audio_stream ''codec_name'' (PStr [])) (\<lambda>cn.
                 ebind (py_lower cn) (\<lambda>output_codec.
                 ebind (py_getitem ps ''audio'') (\<lambda>audio_params.
                 ebind (py_get audio_params ''codec'' (PStr [])) (\<lambda>ec.
                 ebind (py_lower ec) (\<lambda>expected_codec.
                   if expected_codec \<noteq> [] \<and> output_codec \<noteq> expected_codec
                      \<and> \<not> (expected_codec = ''aac'' \<and> output_codec \<in> set [''aac'', ''aac_lc''])
                   then Inr (fail_with (ExpectedAudioCodec expected_codec output_codec) v)
                   else Inr v)))))))))"

text \<open>
  The resolution check runs under the \<open>has_video\<close> of the video codec check, which is
  recomputed here: it is the same value, as nothing changed the metadata.
\<close>

definition check_resolution :: "(string \<times> pyval) list \<Rightarrow> (string \<times> pyval) list \<Rightarrow> validation \<Rightarrow> exn + validation" where
  "check_resolution source_metadata output_metadata v =
     ebind (has_stream ''video'' output_metadata) (\<lambda>has_video.
       if \<not> has_video then Inr v
       else
         ebind (first_stream ''video'' source_metadata) (\<lambda>source_video.
         ebind (first_stream ''video'' output_metadata) (\<lambda>output_video.
           if \<not> (truthy source_video \<and> truthy output_video) then Inr v
           else
             ebind (ebind (py_get source_video ''width'' (PInt 0)) py_int) (\<lambda>source_width.
             ebind (ebind (py_get source_video ''height'' (PInt 0)) py_int) (\<lambda>source_height.
             ebind (ebind (py_get output_video ''width'' (PInt 0)) py_int) (\<lambda>output_width.
             ebind (ebind (py_get output_video ''height'' (PInt 0)) py_int) (\<lambda>output_height.
               if source_width > 0 \<and> source_height > 0 then
                 (let source_pixels = source_width * source_height;
                      output_pixels = output_width * output_height;
                      resolution_reduction =
                        100 - (of_int output_pixels / of_int source_pixels * 100 :: rat)
                  in if resolution_reduction > 10
                     then Inr (note_issue (ResolutionReduced resolution_reduction
                                 source_width source_height output_width output_height) v)
                     else Inr v)
               else Inr v)))))))"

definition check_size :: "(string \<times> pyval) list \<Rightarrow> (string \<times> pyval) list \<Rightarrow> validation \<Rightarrow> exn + validation" where
  "check_size source_metadata output_metadata v =
     ebind (ebind (format_field source_metadata ''size'' (PInt 0)) py_int) (\<lambda>source_size.
     ebind (ebind (format_field output_metadata ''size'' (PInt 0)) py_int) (\<lambda>output_size.
       if output_size \<le> 0 then Inr (fail_with ZeroSize v)
       else if source_size > 0 \<and> (of_int output_size :: rat) < of_int source_size * (1 / 100)
       then Inr (note_issue (SuspiciouslySmall output_size
                   (of_int output_size / of_int source_size)) v)
       else Inr v))"

definition check_duration :: "(string \<times> pyval) list \<Rightarrow> (string \<times> pyval) list \<Rightarrow> validation \<Rightarrow> exn + validation" where
  "check_duration source_metadata output_metadata v =
     ebind (ebind (format_field source_metadata ''duration'' (PInt 0)) py_float) (\<lambda>source_duration.
     ebind (ebind (format_field output_metadata ''duration'' (PInt 0)) py_float) (\<lambda>output_duration.
       if source_duration > 0 \<and> \<bar>output_duration - source_duration\<bar> > 1 then
         (let duration_change_pct = \<bar>output_duration - source_duration\<bar> / source_duration * 100
          in if duration_change_pct > 1
             then Inr (note_issue (DurationChanged duration_change_pct
                         source_duration output_duration) v)
             else Inr v)
       else Inr v))"

text \<open>
  The body of the \<open>try\<close>: the checks run in order on the validation record; the first
  exception stops them and is returned with the record as it then is.
\<close>

fun run_checks :: "(validation \<Rightarrow> exn + validation) list \<Rightarrow> validation \<Rightarrow> exn option \<times> validation" where
  "run_checks [] v = (None, v)"
| "run_checks (c # cs) v =
     (case c v of Inl e \<Rightarrow> (Some e, v) | Inr v' \<Rightarrow> run_checks cs v')"

definition validation_checks :: "(string \<times> pyval) list \<Rightarrow> (string \<times> pyval) list \<Rightarrow> (string \<times> pyval) list \<Rightarrow> (validation \<Rightarrow> exn + validation) list" where
  "validation_checks source_metadata output_metadata target_format =
     [check_format output_metadata target_format,
      check_video_codec output_metadata target_format,
      check_audio_codec output_metadata target_format,
      check_resolution source_metadata output_metadata,
      check_size source_metadata output_metadata,
      check_duration source_metadata output_metadata]"

definition validate_body :: "(string \<times> pyval) list \<Rightarrow> (string \<times> pyval) list \<Rightarrow> (string \<times> pyval) list \<Rightarrow> exn option \<times> validation" where
  "validate_body source_metadata output_metadata target_format =
     run_checks (validation_checks source_metadata output_metadata target_format)
       \<lparr>passed = True, issues = []\<rparr>"

text \<open>
  \<open>_validate_output\<close>: the \<open>except Exception\<close> clause turns an exception of the body into
  a failed validation with one more issue.
\<close>

definition validate_output :: "(string \<times> pyval) list \<Rightarrow> (string \<times> pyval) list \<Rightarrow> (string \<times> pyval) list \<Rightarrow> validation" where
  "validate_output source_metadata output_metadata target_format =
     (case validate_body source_metadata output_metadata target_format of
        (None, v) \<Rightarrow> v
      | (Some e, v) \<Rightarrow> fail_with (ValidationError e) v)"

section \<open>Output validation in \<open>src/normalizer.py\<close>\<close>

text \<open>
  \<open>_validate_output(output_path, output_info, encoding_params)\<close>. The file system is
  read through \<open>os.path.exists\<close> and \<open>os.path.getsize\<close>, whose answers are the
  parameters \<open>file_exists\<close> and \<open>file_size\<close>; \<open>duration\<close> is
  \<open>output_info.get("duration", 0)\<close>, a float in the source, and \<open>streams\<close> is
  \<open>output_info.get("streams", [])\<close>.
\<close>

fun first_stream_codec :: "string \<Rightarrow> pyval list \<Rightarrow> exn + pyval" where
  "first_stream_codec ty [] = Inr PNone"
| "first_stream_codec ty (x # xs) =
     ebind (py_get x ''type'' PNone) (\<lambda>t.
       if t = PStr ty then py_get x ''codec'' PNone else first_stream_codec ty xs)"

definition expected_codec :: "(string \<times> pyval) list \<Rightarrow> string \<Rightarrow> exn + pyval" where
  "expected_codec encoding_params section =
     py_get (dict_get encoding_params section (PDict [])) ''codec'' PNone"

definition src_validate_output :: "bool \<Rightarrow> nat \<Rightarrow> rat \<Rightarrow> pyval list \<Rightarrow> (string \<times> pyval) list \<Rightarrow> exn + validation" where
  "src_validate_output file_exists file_size duration streams encoding_params =
     (if \<not> file_exists then Inr \<lparr>passed = False, issues = [OutputMissing]\<rparr>
      else if file_size = 0 then Inr \<lparr>passed = False, issues = [OutputEmpty]\<rparr>
      else
        (let issues0 = (if duration \<le> 0 then [InvalidDuration] else [])
         in ebind (expected_codec encoding_params ''video'') (\<lambda>expected_video.
            ebind (first_stream_codec ''video'' streams) (\<lambda>actual_video.
            let issues1 = issues0 @
                  (if truthy expected_video \<and> truthy actual_video \<and> expected_video \<noteq> actual_video
                   then [VideoCodecMismatch expected_video actual_video] else [])
            in ebind (expected_codec encoding_params ''audio'') (\<lambda>expected_audio.
               ebind (first_stream_codec ''audio'' streams) (\<lambda>actual_audio.
               let issues2 = issues1 @
                     (if truthy expected_audio \<and> truthy actual_audio \<and> expected_audio \<noteq> actual_audio
                      then [AudioCodecMismatch expected_audio actual_audio] else [])
               in Inr \<lparr>passed = (issues2 = []), issues = issues2\<rparr>))))))"

section \<open>The pipeline (\<open>normalize\<close> of \<open>format_normalizer/normalizer.py\<close>)\<close>

text \<open>
  The pipeline talks to the world through FFprobe, FFmpeg, the AI analyzer and the file
  system. What they answer in one run is collected in an environment; the pipeline is a
  function of the environment and of its arguments. The clock (the processing time of
  the result) is left out.
\<close>

text \<open>
  What probing one file gives: the file is missing; the subprocess call raised (with the
  text of its exception); FFprobe exited with a non-zero code and an error text; its
  output was not JSON (with the text of the decoder's exception); or the metadata.
\<close>

datatype probe_outcome =
    NoFile
  | ProbeCrashed string
  | ProbeExit int string
  | BadJson string
  | Probed "(string \<times> pyval) list"

record env =
  source_probe :: probe_outcome
  output_probe :: probe_outcome
  ai_outcome :: "exn + (string \<times> pyval) list"
  encoder :: "string list \<Rightarrow> string + int \<times> string"
  source_exists :: bool
  output_exists :: bool
  source_size :: nat
  output_size :: nat

text \<open>
  \<open>_analyze_media\<close>: a missing file raises before the \<open>try\<close>; inside it a non-zero exit
  of FFprobe raises a \<open>RuntimeError\<close> that the last handler wraps again, as it wraps
  an exception of the subprocess call; malformed JSON is reported by the first handler.
\<close>

definition analyze_media :: "probe_outcome \<Rightarrow> string \<Rightarrow> exn + (string \<times> pyval) list" where
  "analyze_media outcome media_path =
     (case outcome of
        NoFile \<Rightarrow> Inl (FileNotFoundError (''Media file not found: '' @ media_path))
      | ProbeCrashed msg \<Rightarrow> Inl (RuntimeError (''Media analysis failed: '' @ msg))
      | ProbeExit rc err \<Rightarrow>
          Inl (RuntimeError (''Media analysis failed: FFprobe failed with return code ''
                 @ str_int rc @ '': '' @ err))
      | BadJson msg \<Rightarrow> Inl (RuntimeError (''Invalid FFprobe output: '' @ msg))
      | Probed metadata \<Rightarrow> Inr metadata)"

subsection \<open>\<open>_parse_ffmpeg_output\<close>\<close>

fun split_on :: "char \<Rightarrow> string \<Rightarrow> string list" where
  "split_on c [] = [[]]"
| "split_on c (x # xs) =
     (if x = c then [] # split_on c xs
      else (case split_on c xs of [] \<Rightarrow> [[x]] | y # ys \<Rightarrow> (x # y) # ys))"

definition starts_with :: "string \<Rightarrow> string \<Rightarrow> bool" where
  "starts_with p s = (take (length p) s = p)"

definition parse_ffmpeg_output :: "string \<Rightarrow> string list" where
  "parse_ffmpeg_output stderr_output =
     (let lines = split_on (CHR 0x0A) stderr_output
      in filter (\<lambda>line. is_substring ''Stream mapping:'' line \<or> is_substring ''->'' line) lines
         @ map strip
             (filter (\<lambda>line. starts_with ''Output'' line \<or> is_substring ''encoder'' line
                              \<or> is_substring ''bitrate'' line) lines))"

subsection \<open>\<open>_convert_media\<close>\<close>

text \<open>
  The command is built outside the \<open>try\<close>, so its exceptions pass unchanged. Inside the
  \<open>try\<close> an exception of the subprocess call and the \<open>RuntimeError\<close> for a non-zero exit
  are both wrapped by the handler; on exit code zero the transformations are returned.
\<close>

definition convert_media :: "env \<Rightarrow> string \<Rightarrow> string \<Rightarrow> (string \<times> pyval) list \<Rightarrow> (string \<times> pyval) list \<Rightarrow> exn + string list" where
  "convert_media e source_path output_path format_params source_metadata =
     ebind (build_command source_path output_path format_params source_metadata) (\<lambda>cmd.
       case encoder e cmd of
         Inl msg \<Rightarrow> Inl (RuntimeError (''Media conversion failed: '' @ msg))
       | Inr (rc, err) \<Rightarrow>
           if rc \<noteq> 0 then
             Inl (RuntimeError (''Media conversion failed: FFmpeg failed with return code ''
                    @ str_int rc @ '': '' @ err))
           else Inr (parse_ffmpeg_output err))"

subsection \<open>The helpers of the result record\<close>

text \<open>\<open>_get_codec_info\<close>\<close>

fun codec_names :: "pyval list \<Rightarrow> exn + string list" where
  "codec_names [] = Inr []"
| "codec_names (s # ss) =
     ebind (py_get s ''codec_type'' PNone) (\<lambda>codec_type.
     ebind (py_get s ''codec_name'' PNone) (\<lambda>codec_name.
     ebind (codec_names ss) (\<lambda>rest.
       if truthy codec_type \<and> truthy codec_name
       then Inr ((py_str codec_type @ '':'' @ py_str codec_name) # rest)
       else Inr rest)))"

definition get_codec_info :: "(string \<times> pyval) list \<Rightarrow> exn + string" where
  "get_codec_info metadata =
     ebind (py_iter (dict_get metadata ''streams'' (PList []))) (\<lambda>streams.
     ebind (codec_names streams) (\<lambda>codecs.
       Inr (if codecs \<noteq> [] then join '', '' codecs else ''unknown'')))"

text \<open>\<open>_get_resolution\<close>: width and height of the first video stream, if there is one.\<close>

definition get_resolution :: "(string \<times> pyval) list \<Rightarrow> exn + (int \<times> int) option" where
  "get_resolution metadata =
     ebind (first_stream ''video'' metadata) (\<lambda>s.
       if s = PNone then Inr None
       else
         ebind (ebind (py_get s ''width'' (PInt 0)) py_int) (\<lambda>w.
         ebind (ebind (py_get s ''height'' (PInt 0)) py_int) (\<lambda>h.
           Inr (Some (w, h)))))"

text \<open>\<open>_calculate_quality_metrics\<close>, with the metrics dictionary as a record of options.\<close>

record quality_metrics =
  resolution_preservation :: "rat option"
  bitrate_ratio :: "rat option"
  estimated_visual_quality :: "rat option"
  audio_bitrate_ratio :: "rat option"
  estimated_audio_quality :: "rat option"

definition no_metrics :: quality_metrics where
  "no_metrics = \<lparr>resolution_preservation = None, bitrate_ratio = None,
                  estimated_visual_quality = None, audio_bitrate_ratio = None,
                  estimated_audio_quality = None\<rparr>"

definition video_metrics :: "pyval \<Rightarrow> pyval \<Rightarrow> quality_metrics \<Rightarrow> exn + quality_metrics" where
  "video_metrics source_video output_video m =
     (if \<not> (truthy source_video \<and> truthy output_video) then Inr m
      else
        ebind (ebind (py_get source_video ''width'' (PInt 0)) py_int) (\<lambda>sw.
        ebind (ebind (py_get source_video ''height'' (PInt 0)) py_int) (\<lambda>sh.
        ebind (ebind (py_get output_video ''width'' (PInt 0)) py_int) (\<lambda>ow.
        ebind (ebind (py_get output_video ''height'' (PInt 0)) py_int) (\<lambda>oh.
        let source_pixels = sw * sh;
            output_pixels = ow * oh;
            m1 = (if source_pixels > 0
                  then m\<lparr>resolution_preservation :=
                           Some (min 1 (of_int output_pixels / of_int source_pixels) * 100)\<rparr>
                  else m)
        in ebind (ebind (py_get source_video ''bit_rate'' (PInt 0)) py_float) (\<lambda>source_bitrate.
           ebind (ebind (py_get output_video ''bit_rate'' (PInt 0)) py_float) (\<lambda>output_bitrate.
           let m2 = (if source_bitrate > 0 \<and> output_bitrate > 0
                     then m1\<lparr>bitrate_ratio := Some (output_bitrate / source_bitrate)\<rparr>
                     else m1)
           in Inr (case (resolution_preservation m2, bitrate_ratio m2) of
                     (Some rp, Some br) \<Rightarrow>
                       m2\<lparr>estimated_visual_quality :=
                            Some (min 100 (3 / 5 * rp + 2 / 5 * min 100 (br * 100)))\<rparr>
                   | _ \<Rightarrow> m2))))))))"

definition audio_metrics :: "pyval \<Rightarrow> pyval \<Rightarrow> quality_metrics \<Rightarrow> exn + quality_metrics" where
  "audio_metrics source_audio output_audio m =
     (if \<not> (truthy source_audio \<and> truthy output_audio) then Inr m
      else
        ebind (ebind (py_get source_audio ''bit_rate'' (PInt 0)) py_float) (\<lambda>source_bitrate.
        ebind (ebind (py_get output_audio ''bit_rate'' (PInt 0)) py_float) (\<lambda>output_bitrate.
          if source_bitrate > 0 \<and> output_bitrate > 0
          then Inr (m\<lparr>audio_bitrate_ratio := Some (output_bitrate / source_bitrate),
                       estimated_audio_quality :=
                         Some (min 100 (output_bitrate / source_bitrate * 100))\<rparr>)
          else Inr m)))"

definition calculate_quality_metrics :: "(string \<times> pyval) list \<Rightarrow> (string \<times> pyval) list \<Rightarrow> exn + quality_metrics" where
  "calculate_quality_metrics source_metadata output_metadata =
     ebind (first_stream ''video'' source_metadata) (\<lambda>source_video.
     ebind (first_stream ''video'' output_metadata) (\<lambda>output_video.
     ebind (video_metrics source_video output_video no_metrics) (\<lambda>m.
     ebind (first_stream ''audio'' source_metadata) (\<lambda>source_audio.
     ebind (first_stream ''audio'' output_metadata) (\<lambda>output_audio.
       audio_metrics source_audio output_audio m)))))"

text \<open>\<open>_calculate_compression_ratio\<close>\<close>

definition calculate_compression_ratio :: "env \<Rightarrow> rat" where
  "calculate_compression_ratio e =
     (if \<not> source_exists e \<or> \<not> output_exists e then 0
      else if output_size e \<le> 0 then 0
      else of_nat (source_size e) / of_nat (output_size e))"

subsection \<open>\<open>normalize\<close>\<close>

record job_result =
  uri :: string
  result_format :: pyval
  result_codec :: string
  result_duration :: pyval
  file_size :: nat
  resolution :: "(int \<times> int) option"
  original :: "(string \<times> pyval) list"
  technical :: "(string \<times> pyval) list"
  transformations :: "string list"
  metrics :: quality_metrics
  compression_ratio :: rat
  validation_result :: "validation option"
  ai_analysis :: "(string \<times> pyval) list option"

text \<open>
  Steps 2 and 3 with the analyzer's answer from the environment: the parameters and the
  analysis (\<open>None\<close> when AI is disabled).
\<close>

definition resolve_with_ai :: "env \<Rightarrow> (string \<times> pyval) list \<Rightarrow> string \<Rightarrow> bool \<Rightarrow> exn + (string \<times> pyval) list \<times> (string \<times> pyval) list option" where
  "resolve_with_ai e target_format preset enable_ai =
     ebind (prepare_format_parameters target_format preset) (\<lambda>fp.
       if enable_ai then
         ebind (ai_outcome e) (\<lambda>analysis.
         ebind (apply_ai_recommendations fp analysis) (\<lambda>fp'.
           Inr (fp', Some analysis)))
       else Inr (fp, None))"

definition normalize :: "env \<Rightarrow> string \<Rightarrow> string \<Rightarrow> (string \<times> pyval) list \<Rightarrow> string \<Rightarrow> bool \<Rightarrow> bool \<Rightarrow> exn + job_result" where
  "normalize e source_path output_path target_format preset enable_ai validate_flag =
     ebind (analyze_media (source_probe e) source_path) (\<lambda>source_metadata.
     ebind (resolve_with_ai e target_format preset enable_ai) (\<lambda>(format_params, analysis).
     ebind (convert_media e source_path output_path format_params source_metadata) (\<lambda>transf.
     ebind (if output_exists e then analyze_media (output_probe e) output_path
            else Inl (RuntimeError (''Conversion failed: Output file not found at ''
                        @ output_path))) (\<lambda>output_metadata.
     let validation_results =
           (if validate_flag
            then Some (validate_output source_metadata output_metadata format_params)
            else None)
     in ebind (format_field output_metadata ''format_name'' (PStr [])) (\<lambda>fmt.
        ebind (get_codec_info output_metadata) (\<lambda>codec.
        ebind (format_field output_metadata ''duration'' (PInt 0)) (\<lambda>dur.
        ebind (get_resolution output_metadata) (\<lambda>res.
        ebind (calculate_quality_metrics source_metadata output_metadata) (\<lambda>qm.
          Inr \<lparr>uri = output_path,
               result_format = fmt,
               result_codec = codec,
               result_duration = dur,
               file_size = output_size e,
               resolution = res,
               original = source_metadata,
               technical = output_metadata,
               transformations = transf,
               metrics = qm,
               compression_ratio = calculate_compression_ratio e,
               validation_result = validation_results,
               ai_analysis = (case analysis of
                                None \<Rightarrow> None
                              | Some a \<Rightarrow> if a \<noteq> [] then Some a else None)\<rparr>)))))))))"

section \<open>Frame rates (\<open>_calculate_frame_rate\<close> of \<open>formatnormalizer/normalizer.py\<close>)\<close>




section \<open>Properties of parameter resolution\<close>

lemma ebind_Inl [simp]: "ebind (Inl e) f = Inl e"
  by (simp add: ebind_def)

lemma ebind_Inr [simp]: "ebind (Inr x) f = f x"
  by (simp add: ebind_def)

lemma ebind_eq_Inr: "ebind m f = Inr y \<longleftrightarrow> (\<exists>x. m = Inr x \<and> f x = Inr y)"
  by (cases m) simp_all

lemma map_of_dict_set: "map_of (dict_set k v d) k' = (if k' = k then Some v else map_of d k')"
  by (induction d) auto

lemma keys_dict_set: "fst ` set (dict_set k v d) = insert k (fst ` set d)"
  by (induction d) auto

lemma keys_dict_set_present: "map_of d k = Some w \<Longrightarrow> map fst (dict_set k v d) = map fst d"
  by (induction d) (auto split: if_splits)

lemma py_getitem_Inr: "py_getitem x k = Inr v \<Longrightarrow> \<exists>d. x = PDict d \<and> map_of d k = Some v"
  by (cases x) (auto split: option.splits)

lemma py_setitem_Inr: "py_setitem x k v = Inr y \<Longrightarrow> \<exists>d. x = PDict d \<and> y = PDict (dict_set k v d)"
  by (cases x) auto

lemma section_keys_set_parameters [simp]:
  "section_keys (dict_set ''parameters'' (PDict ps) fp) = map fst ps"
  by (simp add: section_keys_def map_of_dict_set)

lemma set_video_param_keys:
  assumes "set_video_param key v fp = Inr fp'"
  shows "section_keys fp' = section_keys fp"
proof -
  from assms obtain ps vid vid' ps' where
    a: "py_getitem (PDict fp) ''parameters'' = Inr ps" and
    b: "py_getitem ps ''video'' = Inr vid" and
    c: "py_setitem vid key v = Inr vid'" and
    d: "py_setitem ps ''video'' vid' = Inr ps'" and
    e: "fp' = dict_set ''parameters'' ps' fp"
    unfolding set_video_param_def ebind_eq_Inr by blast
  from b obtain pd where pd: "ps = PDict pd" "map_of pd ''video'' = Some vid"
    using py_getitem_Inr by blast
  from d pd have ps': "ps' = PDict (dict_set ''video'' vid' pd)" by simp
  from a pd have "map_of fp ''parameters'' = Some (PDict pd)"
    by (auto split: option.splits)
  then have "section_keys fp = map fst pd" by (simp add: section_keys_def)
  moreover have "section_keys fp' = map fst (dict_set ''video'' vid' pd)"
    using e ps' by simp
  ultimately show ?thesis using keys_dict_set_present [OF pd(2)] by simp
qed

lemma efold_invariant:
  assumes "efold f xs s = Inr s'"
    and "\<And>x a b. f x a = Inr b \<Longrightarrow> P a \<Longrightarrow> P b"
    and "P s"
  shows "P s'"
  using assms
proof (induction xs arbitrary: s)
  case Nil
  then show ?case by simp
next
  case (Cons x xs)
  from Cons.prems(1) obtain t where t: "f x s = Inr t" "efold f xs t = Inr s'"
    by (auto simp: ebind_eq_Inr)
  have "P t" using Cons.prems(2) [OF t(1)] Cons.prems(3) .
  then show ?case using Cons.IH [OF t(2)] Cons.prems(2) by blast
qed

lemma apply_codec_parameters_keys:
  assumes "apply_codec_parameters r fp = Inr fp'"
  shows "section_keys fp' = section_keys fp"
proof -
  from assms obtain f where f: "rec_field r ''codec_parameters'' = Inr f"
    and g: "(case f of Some (PDict cp) \<Rightarrow> efold codec_param_step cp fp | _ \<Rightarrow> Inr fp) = Inr fp'"
    unfolding apply_codec_parameters_def ebind_eq_Inr by blast
  show ?thesis
  proof (cases "\<exists>cp. f = Some (PDict cp)")
    case True
    then obtain cp where cp: "f = Some (PDict cp)" by blast
    with g have h: "efold codec_param_step cp fp = Inr fp'" by simp
    have step: "\<And>x a b. codec_param_step x a = Inr b \<Longrightarrow> section_keys a = section_keys fp
        \<Longrightarrow> section_keys b = section_keys fp"
      by (auto simp: codec_param_step_def ebind_eq_Inr split: if_splits
               dest: set_video_param_keys)
    show ?thesis
      by (rule efold_invariant [OF h, where P = "\<lambda>a. section_keys a = section_keys fp"])
         (auto dest: step)
  next
    case False
    with g have "fp' = fp"
      by (auto split: option.splits pyval.splits)
    then show ?thesis by simp
  qed
qed

lemma apply_bitrate_strategy_keys:
  assumes "apply_bitrate_strategy r fp = Inr fp'"
  shows "section_keys fp' = section_keys fp"
proof -
  from assms obtain f where
    g: "(case f of
         Some (PDict strategy) \<Rightarrow>
           (let strategy_type = dict_get strategy ''type'' PNone;
                strategy_value = dict_get strategy ''value'' PNone
            in if truthy strategy_type \<and> truthy strategy_value then
                 ebind (has_video_section fp) (\<lambda>b.
                   if \<not> b then Inr fp
                   else if strategy_type = PStr ''CRF'' then
                     set_video_param ''crf'' strategy_value fp
                   else if strategy_type = PStr ''CBR'' then
                     ebind (set_video_param ''bitrate'' strategy_value fp) (\<lambda>fp1.
                     ebind (set_video_param ''minrate'' strategy_value fp1) (\<lambda>fp2.
                     ebind (set_video_param ''maxrate'' strategy_value fp2) (\<lambda>fp3.
                     ebind (cbr_bufsize strategy_value) (\<lambda>b.
                       set_video_param ''bufsize'' b fp3))))
                   else if strategy_type = PStr ''VBR'' then
                     set_video_param ''bitrate'' strategy_value fp
                   else Inr fp)
               else Inr fp)
       | _ \<Rightarrow> Inr fp) = Inr fp'"
    unfolding apply_bitrate_strategy_def ebind_eq_Inr by blast
  show ?thesis
  proof (cases "\<exists>st. f = Some (PDict st)")
    case False
    with g have "fp' = fp" by (auto split: option.splits pyval.splits)
    then show ?thesis by simp
  next
    case True
    then obtain st where st: "f = Some (PDict st)" by blast
    let ?ty = "dict_get st ''type'' PNone"
    let ?va = "dict_get st ''value'' PNone"
    show ?thesis
    proof (cases "truthy ?ty \<and> truthy ?va")
      case False
      with g st have "fp' = fp" by (auto simp: Let_def)
      then show ?thesis by simp
    next
      case True
      with g st obtain b where
        h: "(if \<not> b then Inr fp
             else if ?ty = PStr ''CRF'' then set_video_param ''crf'' ?va fp
             else if ?ty = PStr ''CBR'' then
               ebind (set_video_param ''bitrate'' ?va fp) (\<lambda>fp1.
               ebind (set_video_param ''minrate'' ?va fp1) (\<lambda>fp2.
               ebind (set_video_param ''maxrate'' ?va fp2) (\<lambda>fp3.
               ebind (cbr_bufsize ?va) (\<lambda>b. set_video_param ''bufsize'' b fp3))))
             else if ?ty = PStr ''VBR'' then set_video_param ''bitrate'' ?va fp
             else Inr fp) = Inr fp'"
        by (auto simp: Let_def ebind_eq_Inr)
      consider (none) "fp' = fp"
        | (one) k v where "set_video_param k v fp = Inr fp'"
        | (cbr) fp1 fp2 fp3 bs where "set_video_param ''bitrate'' ?va fp = Inr fp1"
            "set_video_param ''minrate'' ?va fp1 = Inr fp2"
            "set_video_param ''maxrate'' ?va fp2 = Inr fp3"
            "set_video_param ''bufsize'' bs fp3 = Inr fp'"
      proof (cases "\<not> b")
        case True
        with h have "fp' = fp" by simp
        then show ?thesis by (rule none)
      next
        case nb: False
        show ?thesis
        proof (cases "?ty = PStr ''CRF''")
          case True
          with h nb have "set_video_param ''crf'' ?va fp = Inr fp'" by simp
          then show ?thesis by (rule one)
        next
          case ncrf: False
          show ?thesis
          proof (cases "?ty = PStr ''CBR''")
            case True
            with h nb ncrf have
              "ebind (set_video_param ''bitrate'' ?va fp) (\<lambda>fp1.
               ebind (set_video_param ''minrate'' ?va fp1) (\<lambda>fp2.
               ebind (set_video_param ''maxrate'' ?va fp2) (\<lambda>fp3.
               ebind (cbr_bufsize ?va) (\<lambda>b. set_video_param ''bufsize'' b fp3)))) = Inr fp'"
              by simp
            then obtain fp1 fp2 fp3 bs where
              "set_video_param ''bitrate'' ?va fp = Inr fp1"
              "set_video_param ''minrate'' ?va fp1 = Inr fp2"
              "set_video_param ''maxrate'' ?va fp2 = Inr fp3"
              "set_video_param ''bufsize'' bs fp3 = Inr fp'"
              unfolding ebind_eq_Inr by blast
            then show ?thesis by (rule cbr)
          next
            case ncbr: False
            show ?thesis
            proof (cases "?ty = PStr ''VBR''")
              case True
              with h nb ncrf ncbr have "set_video_param ''bitrate'' ?va fp = Inr fp'" by simp
              then show ?thesis by (rule one)
            next
              case False
              with h nb ncrf ncbr have "fp' = fp" by simp
              then show ?thesis by (rule none)
            qed
          qed
        qed
      qed
      then show ?thesis
      proof cases
        case none
        then show ?thesis by simp
      next
        case one
        then show ?thesis by (rule set_video_param_keys)
      next
        case cbr
        then show ?thesis
          using set_video_param_keys [of "''bitrate''" ?va fp fp1]
            set_video_param_keys [of "''minrate''" ?va fp1 fp2]
            set_video_param_keys [of "''maxrate''" ?va fp2 fp3]
            set_video_param_keys [of "''bufsize''" bs fp3 fp'] by simp
      qed
    qed
  qed
qed

lemma apply_ffmpeg_options_keys:
  assumes "apply_ffmpeg_options r fp = Inr fp'"
  shows "set (section_keys fp') \<subseteq> insert ''ffmpeg_options'' (set (section_keys fp))"
    and "set (section_keys fp) \<subseteq> set (section_keys fp')"
proof -
  from assms obtain f where f: "rec_field r ''ffmpeg_options'' = Inr f"
    and g: "(case f of
         Some (PList opts) \<Rightarrow>
           ebind (py_getitem (PDict fp) ''parameters'') (\<lambda>ps.
           ebind (py_contains ''ffmpeg_options'' ps) (\<lambda>present.
           ebind (if present then Inr ps else py_setitem ps ''ffmpeg_options'' (PList [])) (\<lambda>ps1.
           ebind (py_getitem ps1 ''ffmpeg_options'') (\<lambda>cur.
           ebind (py_extend cur opts) (\<lambda>cur'.
           ebind (py_setitem ps1 ''ffmpeg_options'' cur') (\<lambda>ps2.
             Inr (dict_set ''parameters'' ps2 fp)))))))
       | _ \<Rightarrow> Inr fp) = Inr fp'"
    unfolding apply_ffmpeg_options_def ebind_eq_Inr by blast
  have "set (section_keys fp') \<subseteq> insert ''ffmpeg_options'' (set (section_keys fp))
     \<and> set (section_keys fp) \<subseteq> set (section_keys fp')"
  proof (cases "\<exists>opts. f = Some (PList opts)")
    case False
    with g have "fp' = fp" by (auto split: option.splits pyval.splits)
    then show ?thesis by auto
  next
    case True
    then obtain opts where "f = Some (PList opts)" by blast
    with g obtain ps present ps1 cur cur' ps2 where
      a: "py_getitem (PDict fp) ''parameters'' = Inr ps" and
      b: "py_contains ''ffmpeg_options'' ps = Inr present" and
      c: "(if present then Inr ps else py_setitem ps ''ffmpeg_options'' (PList [])) = Inr ps1" and
      d: "py_getitem ps1 ''ffmpeg_options'' = Inr cur" and
      e: "py_setitem ps1 ''ffmpeg_options'' cur' = Inr ps2" and
      h: "fp' = dict_set ''parameters'' ps2 fp"
      by (auto simp: ebind_eq_Inr)
    from d obtain d1 where d1: "ps1 = PDict d1" using py_getitem_Inr by blast
    from e d1 have ps2: "ps2 = PDict (dict_set ''ffmpeg_options'' cur' d1)" by simp
    have k1: "set (map fst d1) \<subseteq> insert ''ffmpeg_options'' (set (section_keys fp))
          \<and> set (section_keys fp) \<subseteq> set (map fst d1)"
    proof (cases present)
      case True
      with c d1 have "ps = PDict d1" by simp
      with a have "section_keys fp = map fst d1"
        by (auto simp: section_keys_def split: option.splits)
      then show ?thesis by auto
    next
      case False
      with c have "py_setitem ps ''ffmpeg_options'' (PList []) = Inr ps1" by simp
      then obtain d0 where d0: "ps = PDict d0" "ps1 = PDict (dict_set ''ffmpeg_options'' (PList []) d0)"
        using py_setitem_Inr by blast
      with a have "section_keys fp = map fst d0"
        by (auto simp: section_keys_def split: option.splits)
      moreover from d0 d1 have "d1 = dict_set ''ffmpeg_options'' (PList []) d0" by simp
      ultimately show ?thesis by (auto simp: keys_dict_set)
    qed
    have "section_keys fp' = map fst (dict_set ''ffmpeg_options'' cur' d1)"
      using h ps2 by simp
    then show ?thesis using k1 by (auto simp: keys_dict_set)
  qed
  then show "set (section_keys fp') \<subseteq> insert ''ffmpeg_options'' (set (section_keys fp))"
    and "set (section_keys fp) \<subseteq> set (section_keys fp')" by auto
qed

lemma apply_ai_recommendations_keys:
  assumes "apply_ai_recommendations fp ai = Inr fp'"
  shows "set (section_keys fp) \<subseteq> set (section_keys fp')
       \<and> set (section_keys fp') \<subseteq> insert ''ffmpeg_options'' (set (section_keys fp))"
proof (cases "truthy (dict_get ai ''encoding_recommendations'' (PDict []))")
  case False
  with assms have "fp' = fp" by (simp add: apply_ai_recommendations_def)
  then show ?thesis by auto
next
  case True
  with assms obtain fp1 fp2 where
    a: "apply_codec_parameters (dict_get ai ''encoding_recommendations'' (PDict [])) fp = Inr fp1" and
    b: "apply_bitrate_strategy (dict_get ai ''encoding_recommendations'' (PDict [])) fp1 = Inr fp2" and
    c: "apply_ffmpeg_options (dict_get ai ''encoding_recommendations'' (PDict [])) fp2 = Inr fp'"
    by (auto simp: apply_ai_recommendations_def Let_def ebind_eq_Inr)
  show ?thesis
    using apply_codec_parameters_keys [OF a] apply_bitrate_strategy_keys [OF b]
      apply_ffmpeg_options_keys [OF c] by auto
qed

lemmas value_defs = dict_get_def lower_char_def is_space_def is_digit_def digit_val_def
  strip_def parse_int_def str_nat.simps str_int_def digit_char_def

lemmas resolve_defs = resolve_def prepare_format_parameters_def get_default_codec_def
  format_codec_map_def is_x264_def preset_parameters_def merge_step_def merge_overrides_def
  has_video_section_def set_video_param_def rec_field_def codec_param_step_def
  apply_codec_parameters_def cbr_bufsize_def apply_bitrate_strategy_def apply_ffmpeg_options_def
  apply_ai_recommendations_def param_of_def section_keys_def resolved_param_def
  resolved_sections_def Let_def

text \<open>
  Claim C1 (as amended). With preset \<open>web\<close> and an override that sets \<open>video.crf\<close> to 18
  the resolved CRF is 18; when in addition an AI recommendation with bitrate strategy
  \<open>CRF\<close> and value 22 is applied with AI enabled, the resolved CRF is 22. Applying AI
  recommendations keeps every section of the parameters that was present, and the only
  top-level key it can add is \<open>ffmpeg_options\<close>: it never adds a video or an audio
  section.
\<close>

theorem resolve_precedence:
  assumes fmt: "dict_get tf ''format'' (PStr ''mp4'') = PStr f"
    and ov: "map_of tf ''parameters'' = Some (PDict [(''video'', PDict [(''crf'', PInt 18)])])"
    and ai: "dict_get ai ''encoding_recommendations'' (PDict []) =
               PDict [(''bitrate_strategy'', PDict [(''type'', PStr ''CRF''), (''value'', PInt 22)])]"
  shows "resolved_param (resolve tf ''web'' False ai) ''video'' ''crf'' = Some (PInt 18)
       \<and> resolved_param (resolve tf ''web'' True ai) ''video'' ''crf'' = Some (PInt 22)
       \<and> (\<forall>tf' preset a fp'. resolve tf' preset True a = Inr fp' \<longrightarrow>
            (\<exists>fp. resolve tf' preset False a = Inr fp
                \<and> set (section_keys fp) \<subseteq> set (section_keys fp')
                \<and> set (section_keys fp') \<subseteq> insert ''ffmpeg_options'' (set (section_keys fp))))"
proof (intro conjI allI impI)
  have prep: "prepare_format_parameters tf ''web'' =
      Inr [(''format'', PStr (map lower_char f)),
           (''codec'', if \<not> truthy (dict_get tf ''codec'' (PStr [])) then PStr (get_default_codec (map lower_char f)) else dict_get tf ''codec'' (PStr [])),
           (''preset'', PStr ''web''),
           (''parameters'', PDict
              [(''video'', PDict [(''crf'', PInt 18), (''preset'', PStr ''medium''),
                                  (''movflags'', PStr ''+faststart'')]),
               (''audio'', PDict [(''codec'', PStr ''aac''), (''bitrate'', PStr ''128k'')])])]"
    using fmt ov
    by (simp add: prepare_format_parameters_def Let_def preset_parameters_def
        merge_overrides_def merge_step_def)
  show "resolved_param (resolve tf ''web'' False ai) ''video'' ''crf'' = Some (PInt 18)"
    by (simp add: resolve_def prep resolved_param_def param_of_def)
  have "\<And>fp. resolved_param (apply_ai_recommendations
           [(''format'', PStr (map lower_char f)), (''codec'', c), (''preset'', PStr ''web''),
            (''parameters'', PDict
              [(''video'', PDict [(''crf'', PInt 18), (''preset'', PStr ''medium''),
                                  (''movflags'', PStr ''+faststart'')]),
               (''audio'', PDict [(''codec'', PStr ''aac''), (''bitrate'', PStr ''128k'')])])] ai)
          ''video'' ''crf'' = Some (PInt 22)" for c
    unfolding apply_ai_recommendations_def ai
    by (simp add: resolved_param_def param_of_def Let_def apply_codec_parameters_def
        rec_field_def apply_bitrate_strategy_def dict_get_def has_video_section_def
        set_video_param_def apply_ffmpeg_options_def)
  then show "resolved_param (resolve tf ''web'' True ai) ''video'' ''crf'' = Some (PInt 22)"
    by (simp add: resolve_def prep)
next
  fix tf' preset a fp'
  assume "resolve tf' preset True a = Inr fp'"
  then obtain fp where p: "prepare_format_parameters tf' preset = Inr fp"
    and q: "apply_ai_recommendations fp a = Inr fp'"
    by (auto simp: resolve_def ebind_eq_Inr)
  from p have "resolve tf' preset False a = Inr fp" by (simp add: resolve_def)
  then show "\<exists>fp. resolve tf' preset False a = Inr fp
                \<and> set (section_keys fp) \<subseteq> set (section_keys fp')
                \<and> set (section_keys fp') \<subseteq> insert ''ffmpeg_options'' (set (section_keys fp))"
    using apply_ai_recommendations_keys [OF q] by blast
qed

theorem resolve_precedence_witness:
  "resolved_param (resolve [(''parameters'', PDict [(''video'', PDict [(''crf'', PInt 18)])])] ''web'' False
      [(''encoding_recommendations'', PDict [(''bitrate_strategy'', PDict [(''type'', PStr ''CRF''), (''value'', PInt 22)])])])
      ''video'' ''crf'' = Some (PInt 18)
   \<and> resolved_param (resolve [(''parameters'', PDict [(''video'', PDict [(''crf'', PInt 18)])])] ''web'' True
      [(''encoding_recommendations'', PDict [(''bitrate_strategy'', PDict [(''type'', PStr ''CRF''), (''value'', PInt 22)])])])
      ''video'' ''crf'' = Some (PInt 22)
   \<and> resolved_sections (resolve [] ''web'' True
      [(''encoding_recommendations'', PDict [(''ffmpeg_options'', PList [PStr ''-tune'', PStr ''film''])])])
      = Some [''video'', ''audio'', ''ffmpeg_options'']
   \<and> resolved_sections (resolve [] ''web'' False
      [(''encoding_recommendations'', PDict [(''ffmpeg_options'', PList [PStr ''-tune'', PStr ''film''])])])
      = Some [''video'', ''audio'']"
proof -
  let ?tf = "[(''parameters'', PDict [(''video'', PDict [(''crf'', PInt 18)])])]"
  let ?ai = "[(''encoding_recommendations'', PDict [(''bitrate_strategy'', PDict [(''type'', PStr ''CRF''), (''value'', PInt 22)])])]"
  let ?ai2 = "[(''encoding_recommendations'', PDict [(''ffmpeg_options'', PList [PStr ''-tune'', PStr ''film''])])]"
  let ?fp' = "[(''format'', PStr ''mp4''), (''codec'', PStr ''h264''), (''preset'', PStr ''web''),
      (''parameters'', PDict [(''video'', PDict [(''crf'', PInt 23), (''preset'', PStr ''medium''), (''movflags'', PStr ''+faststart'')]),
         (''audio'', PDict [(''codec'', PStr ''aac''), (''bitrate'', PStr ''128k'')]),
         (''ffmpeg_options'', PList [PStr ''-tune'', PStr ''film''])])]"
  have h1: "dict_get ?tf ''format'' (PStr ''mp4'') = PStr ''mp4''" by (simp add: dict_get_def)
  have h2: "map_of ?tf ''parameters'' = Some (PDict [(''video'', PDict [(''crf'', PInt 18)])])" by simp
  have h3: "dict_get ?ai ''encoding_recommendations'' (PDict []) =
               PDict [(''bitrate_strategy'', PDict [(''type'', PStr ''CRF''), (''value'', PInt 22)])]"
    by (simp add: dict_get_def)
  note t = resolve_precedence [OF h1 h2 h3]
  have r: "resolve [] ''web'' True ?ai2 = Inr ?fp'"
    by (simp add: resolve_defs value_defs)
  have s: "section_keys ?fp' = [''video'', ''audio'', ''ffmpeg_options'']"
    by (simp add: section_keys_def)
  have "resolved_sections (resolve [] ''web'' False ?ai2) = Some [''video'', ''audio'']"
    by (simp add: resolve_defs value_defs)
  moreover have "resolved_sections (resolve [] ''web'' True ?ai2) = Some [''video'', ''audio'', ''ffmpeg_options'']"
    unfolding r by (simp add: resolved_sections_def s)
  ultimately show ?thesis using t by simp
qed

text \<open>
  Claim C1 as stated fails: an AI recommendation that carries \<open>ffmpeg_options\<close> adds
  the top-level key \<open>ffmpeg_options\<close> to parameters that did not have it.
\<close>

theorem ai_adds_ffmpeg_options_section:
  "resolved_sections (resolve [] ''web'' False
      [(''encoding_recommendations'', PDict [(''ffmpeg_options'', PList [PStr ''-tune'', PStr ''film''])])])
      = Some [''video'', ''audio'']
   \<and> resolved_sections (resolve [] ''web'' True
      [(''encoding_recommendations'', PDict [(''ffmpeg_options'', PList [PStr ''-tune'', PStr ''film''])])])
      = Some [''video'', ''audio'', ''ffmpeg_options'']"
  by (simp add: resolve_defs value_defs)

text \<open>
  Claim C2 at the input \<open>CBR\<close>, \<open>5000k\<close>: the source replaces \<open>k\<close> by \<open>000\<close>, doubles
  the number and appends \<open>k\<close> again, so bitrate, minrate and maxrate are \<open>5000k\<close> and
  bufsize is \<open>10000000k\<close>, not \<open>10000k\<close>.
\<close>

theorem cbr_bufsize_at_5000k:
  "resolved_param (resolve [] ''web'' True
      [(''encoding_recommendations'', PDict [(''bitrate_strategy'', PDict [(''type'', PStr ''CBR''), (''value'', PStr ''5000k'')])])])
      ''video'' ''bitrate'' = Some (PStr ''5000k'')
   \<and> resolved_param (resolve [] ''web'' True
      [(''encoding_recommendations'', PDict [(''bitrate_strategy'', PDict [(''type'', PStr ''CBR''), (''value'', PStr ''5000k'')])])])
      ''video'' ''minrate'' = Some (PStr ''5000k'')
   \<and> resolved_param (resolve [] ''web'' True
      [(''encoding_recommendations'', PDict [(''bitrate_strategy'', PDict [(''type'', PStr ''CBR''), (''value'', PStr ''5000k'')])])])
      ''video'' ''maxrate'' = Some (PStr ''5000k'')
   \<and> resolved_param (resolve [] ''web'' True
      [(''encoding_recommendations'', PDict [(''bitrate_strategy'', PDict [(''type'', PStr ''CBR''), (''value'', PStr ''5000k'')])])])
      ''video'' ''bufsize'' = Some (PStr ''10000000k'')"
  by (simp add: resolve_defs value_defs)

section \<open>Properties of the command builder\<close>

lemma ebind_assoc: "ebind (ebind m f) g = ebind m (\<lambda>x. ebind (f x) g)"
  by (cases m) simp_all

lemma ebind_if: "ebind (if c then a else b) f = (if c then ebind a f else ebind b f)"
  by simp

lemma extend_each_prefix:
  "extend_each f xs cmd = ebind (extend_each f xs []) (\<lambda>ys. Inr (cmd @ ys))"
proof (induction xs arbitrary: cmd)
  case Nil
  then show ?case by simp
next
  case (Cons x xs)
  show ?case
  proof (cases "f x")
    case (Inl e)
    then show ?thesis by simp
  next
    case (Inr ys)
    have "extend_each f (x # xs) cmd = extend_each f xs (cmd @ ys)"
      using Inr by simp
    also have "\<dots> = ebind (extend_each f xs []) (\<lambda>zs. Inr ((cmd @ ys) @ zs))"
      by (rule Cons.IH)
    finally have l: "extend_each f (x # xs) cmd
        = ebind (extend_each f xs []) (\<lambda>zs. Inr (cmd @ ys @ zs))" by simp
    have "extend_each f (x # xs) [] = ebind (extend_each f xs []) (\<lambda>zs. Inr (ys @ zs))"
      using Inr Cons.IH [of ys] by simp
    then have "ebind (extend_each f (x # xs) []) (\<lambda>ys. Inr (cmd @ ys))
        = ebind (extend_each f xs []) (\<lambda>zs. Inr (cmd @ ys @ zs))"
      by (simp add: ebind_assoc)
    with l show ?thesis by simp
  qed
qed

lemma add_video_args_prefix:
  "add_video_args fp md cmd = ebind (add_video_args fp md []) (\<lambda>ys. Inr (cmd @ ys))"
proof -
  have e: "extend_each f xs (cmd @ c) = ebind (extend_each f xs c) (\<lambda>ys. Inr (cmd @ ys))"
    for f :: "string \<times> pyval \<Rightarrow> exn + pyval list" and xs c
    by (subst extend_each_prefix, subst (2) extend_each_prefix) (simp add: ebind_assoc)
  show ?thesis
    unfolding add_video_args_def
    by (simp add: ebind_assoc ebind_if e [symmetric] if_distrib [of "\<lambda>m. ebind m _"]
             cong: if_cong)
qed


lemma extend_each_prefix2:
  "extend_each f xs (cmd @ c) = ebind (extend_each f xs c) (\<lambda>ys. Inr (cmd @ ys))"
  by (subst extend_each_prefix, subst (2) extend_each_prefix) (simp add: ebind_assoc)

lemma add_audio_args_prefix:
  "add_audio_args fp md cmd = ebind (add_audio_args fp md []) (\<lambda>ys. Inr (cmd @ ys))"
proof -
  have e: "extend_each audio_param_args xs cmd
      = ebind (extend_each audio_param_args xs []) (\<lambda>ys. Inr (cmd @ ys))" for xs cmd
    by (rule extend_each_prefix)
  have e2: "extend_each audio_param_args xs (cmd @ c)
      = ebind (extend_each audio_param_args xs c) (\<lambda>ys. Inr (cmd @ ys))" for xs c
    by (rule extend_each_prefix2)
  show ?thesis
    unfolding add_audio_args_def
    by (simp add: ebind_assoc ebind_if e2 [symmetric] cong: if_cong)
qed

lemma add_custom_options_prefix:
  "add_custom_options fp cmd = ebind (add_custom_options fp []) (\<lambda>ys. Inr (cmd @ ys))"
  unfolding add_custom_options_def
  by (simp add: ebind_assoc ebind_if cong: if_cong)

lemma add_output_format_prefix:
  "add_output_format fp cmd = ebind (add_output_format fp []) (\<lambda>ys. Inr (cmd @ ys))"
  unfolding add_output_format_def
  by (simp add: ebind_assoc ebind_if cong: if_cong)

lemma the_strings_Inr: "the_strings xs = Inr ss \<Longrightarrow> xs = map PStr ss"
proof (induction xs arbitrary: ss)
  case Nil
  then show ?case by simp
next
  case (Cons x xs)
  then show ?case
    by (cases x) (auto simp: ebind_eq_Inr)
qed

lemma the_strings_map [simp]: "the_strings (map PStr ss) = Inr ss"
  by (induction ss) simp_all

lemma map_eq_append6:
  assumes "p @ v @ a @ e @ f @ q = map g cmd"
  shows "\<exists>sp sv sa se sf sq. cmd = sp @ sv @ sa @ se @ sf @ sq \<and> p = map g sp
     \<and> v = map g sv \<and> a = map g sa \<and> e = map g se \<and> f = map g sf \<and> q = map g sq"
proof -
  from assms obtain sp r0 where 0: "cmd = sp @ r0" "p = map g sp" "v @ a @ e @ f @ q = map g r0"
    unfolding append_eq_map_conv [of p] by blast
  from 0(3) obtain sv r1 where 1: "r0 = sv @ r1" "v = map g sv" "a @ e @ f @ q = map g r1"
    unfolding append_eq_map_conv [of v] by blast
  from 1(3) obtain sa r2 where 2: "r1 = sa @ r2" "a = map g sa" "e @ f @ q = map g r2"
    unfolding append_eq_map_conv [of a] by blast
  from 2(3) obtain se r3 where 3: "r2 = se @ r3" "e = map g se" "f @ q = map g r3"
    unfolding append_eq_map_conv [of e] by blast
  from 3(3) obtain sf sq where 4: "r3 = sf @ sq" "f = map g sf" "q = map g sq"
    unfolding append_eq_map_conv [of f] by blast
  show ?thesis using 0 1 2 3 4 by blast
qed

lemma map_of_Some_in_keys: "map_of d k = Some v \<Longrightarrow> k \<in> fst ` set d"
  by (induction d) (auto split: if_splits)

lemma map_PStr_eq: "map PStr xs = map PStr ys \<longleftrightarrow> xs = ys"
  by (rule inj_map_eq_map) (simp add: inj_def)

lemmas builder_defs = build_command_def add_video_args_def add_audio_args_def
  add_custom_options_def add_output_format_def has_stream_def video_codec_args_def
  video_param_args_def audio_param_args_def Let_def

lemma any_codec_type_total:
  "list_all is_dict ss \<Longrightarrow> \<exists>b. any_codec_type ty ss = Inr b"
proof (induction ss)
  case Nil
  then show ?case by auto
next
  case (Cons s ss)
  then obtain d where "s = PDict d" by (cases s) auto
  with Cons show ?case by auto
qed

lemma any_codec_type_none:
  "list_all is_dict ss \<Longrightarrow> list_all (\<lambda>s. py_get s ''codec_type'' PNone \<noteq> Inr (PStr ty)) ss
    \<Longrightarrow> any_codec_type ty ss = Inr False"
proof (induction ss)
  case Nil
  then show ?case by simp
next
  case (Cons s ss)
  then obtain d where "s = PDict d" by (cases s) auto
  with Cons show ?case by auto
qed

lemma map_of_None_not_in_keys: "map_of d k = None \<Longrightarrow> k \<notin> fst ` set d"
  by (simp add: map_of_eq_None_iff)

lemma add_video_args_no_stream:
  "has_stream ''video'' md = Inr False \<Longrightarrow> add_video_args fp md cmd = Inr cmd"
  by (simp add: add_video_args_def)

lemma add_video_args_no_section:
  "has_stream ''video'' md = Inr b \<Longrightarrow> map_of fp ''parameters'' = Some (PDict ps)
    \<Longrightarrow> map_of ps ''video'' = None \<Longrightarrow> add_video_args fp md cmd = Inr cmd"
  by (simp add: add_video_args_def map_of_None_not_in_keys)

lemma add_audio_args_no_stream:
  "has_stream ''audio'' md = Inr False \<Longrightarrow> add_audio_args fp md cmd = Inr cmd"
  by (simp add: add_audio_args_def)

lemma add_audio_args_no_section:
  "has_stream ''audio'' md = Inr b \<Longrightarrow> map_of fp ''parameters'' = Some (PDict ps)
    \<Longrightarrow> map_of ps ''audio'' = None \<Longrightarrow> add_audio_args fp md cmd = Inr cmd"
  by (simp add: add_audio_args_def map_of_None_not_in_keys)

lemma audio_only_command:
  assumes ss: "dict_get md ''streams'' (PList []) = PList ss" "list_all is_dict ss"
    and na: "list_all (\<lambda>s. py_get s ''codec_type'' PNone \<noteq> Inr (PStr ''audio'')) ss"
    and fmt: "map_of fp ''format'' = Some (PStr fmt)"
    and ps: "map_of fp ''parameters'' = Some (PDict ps)"
      "map_of ps ''video'' = None" "map_of ps ''ffmpeg_options'' = None"
  shows "build_command src out fp md =
     Inr ([''ffmpeg'', ''-y'', ''-i'', src] @ (if fmt = [] then [] else [''-f'', fmt]) @ [out])"
proof -
  from any_codec_type_total [OF ss(2)] obtain b where "any_codec_type ''video'' ss = Inr b"
    by blast
  then have hv: "has_stream ''video'' md = Inr b" by (simp add: has_stream_def ss(1))
  have ha: "has_stream ''audio'' md = Inr False"
    by (simp add: has_stream_def ss(1) any_codec_type_none [OF ss(2) na])
  have c: "add_custom_options fp cmd = Inr cmd" for cmd
    using ps by (simp add: add_custom_options_def map_of_None_not_in_keys)
  have f: "add_output_format fp cmd = Inr (cmd @ (if fmt = [] then [] else [PStr ''-f'', PStr fmt]))"
    for cmd
    using fmt by (simp add: add_output_format_def)
  show ?thesis
    unfolding build_command_def
    by (simp add: add_video_args_no_section [OF hv ps(1,2)] add_audio_args_no_stream [OF ha] c f)
qed

text \<open>
  Claim C3. The builder extends the command by video arguments only when the source has a
  video stream and the parameters have a video section, and by audio arguments only when
  the source has an audio stream and the parameters have an audio section. For a
  specification without a video section and without custom options, applied to a
  well-formed source without an audio stream, the call succeeds and the command is the
  fixed prefix, the container pair and the output path: it holds none of the audio flags
  \<open>-c:a\<close>, \<open>-b:a\<close>, \<open>-ar\<close>, \<open>-ac\<close> (unless a path or the format given by the caller is
  such a string).
\<close>

theorem branches_need_stream_and_section:
  "(has_stream ''video'' md = Inr False \<longrightarrow> add_video_args fp md cmd = Inr cmd)
 \<and> (\<forall>b ps. has_stream ''video'' md = Inr b \<and> map_of fp ''parameters'' = Some (PDict ps)
        \<and> map_of ps ''video'' = None \<longrightarrow> add_video_args fp md cmd = Inr cmd)
 \<and> (has_stream ''audio'' md = Inr False \<longrightarrow> add_audio_args fp md cmd = Inr cmd)
 \<and> (\<forall>b ps. has_stream ''audio'' md = Inr b \<and> map_of fp ''parameters'' = Some (PDict ps)
        \<and> map_of ps ''audio'' = None \<longrightarrow> add_audio_args fp md cmd = Inr cmd)
 \<and> (\<forall>ss fmt ps.
        dict_get md ''streams'' (PList []) = PList ss \<and> list_all is_dict ss
      \<and> list_all (\<lambda>s. py_get s ''codec_type'' PNone \<noteq> Inr (PStr ''audio'')) ss
      \<and> map_of fp ''format'' = Some (PStr fmt)
      \<and> map_of fp ''parameters'' = Some (PDict ps)
      \<and> map_of ps ''video'' = None \<and> map_of ps ''ffmpeg_options'' = None
      \<longrightarrow> build_command src out fp md =
            Inr ([''ffmpeg'', ''-y'', ''-i'', src] @ (if fmt = [] then [] else [''-f'', fmt]) @ [out])
        \<and> (src \<notin> set audio_flags \<and> fmt \<notin> set audio_flags \<and> out \<notin> set audio_flags \<longrightarrow>
             set ([''ffmpeg'', ''-y'', ''-i'', src] @ (if fmt = [] then [] else [''-f'', fmt]) @ [out])
               \<inter> set audio_flags = {}))"
proof (intro conjI allI impI)
  show "add_video_args fp md cmd = Inr cmd" if "has_stream ''video'' md = Inr False"
    using that by (rule add_video_args_no_stream)
  show "add_video_args fp md cmd = Inr cmd"
    if "has_stream ''video'' md = Inr b \<and> map_of fp ''parameters'' = Some (PDict ps)
        \<and> map_of ps ''video'' = None" for b ps
    using that add_video_args_no_section [of md b fp ps cmd] by simp
  show "add_audio_args fp md cmd = Inr cmd" if "has_stream ''audio'' md = Inr False"
    using that by (rule add_audio_args_no_stream)
  show "add_audio_args fp md cmd = Inr cmd"
    if "has_stream ''audio'' md = Inr b \<and> map_of fp ''parameters'' = Some (PDict ps)
        \<and> map_of ps ''audio'' = None" for b ps
    using that add_audio_args_no_section [of md b fp ps cmd] by simp
next
  fix ss fmt ps
  assume h: "dict_get md ''streams'' (PList []) = PList ss \<and> list_all is_dict ss
      \<and> list_all (\<lambda>s. py_get s ''codec_type'' PNone \<noteq> Inr (PStr ''audio'')) ss
      \<and> map_of fp ''format'' = Some (PStr fmt)
      \<and> map_of fp ''parameters'' = Some (PDict ps)
      \<and> map_of ps ''video'' = None \<and> map_of ps ''ffmpeg_options'' = None"
  then show "build_command src out fp md =
            Inr ([''ffmpeg'', ''-y'', ''-i'', src] @ (if fmt = [] then [] else [''-f'', fmt]) @ [out])"
    using audio_only_command [of md ss fp fmt ps src out] by simp
next
  fix ss fmt ps
  assume "src \<notin> set audio_flags \<and> fmt \<notin> set audio_flags \<and> out \<notin> set audio_flags"
  moreover have "''ffmpeg'' \<notin> set audio_flags" "''-y'' \<notin> set audio_flags"
    "''-i'' \<notin> set audio_flags" "''-f'' \<notin> set audio_flags"
    by (simp_all add: audio_flags_def)
  ultimately show "set ([''ffmpeg'', ''-y'', ''-i'', src] @ (if fmt = [] then [] else [''-f'', fmt]) @ [out])
               \<inter> set audio_flags = {}"
    by simp
qed

theorem branches_need_stream_and_section_witness:
  "build_command ''in.mp4'' ''out.mp4''
     [(''format'', PStr ''mp4''), (''codec'', PStr ''aac''), (''preset'', PStr ''web''),
      (''parameters'', PDict [(''audio'', PDict [(''codec'', PStr ''aac''), (''bitrate'', PStr ''128k'')])])]
     [(''streams'', PList [PDict [(''codec_type'', PStr ''video'')]])]
   = Inr [''ffmpeg'', ''-y'', ''-i'', ''in.mp4'', ''-f'', ''mp4'', ''out.mp4'']
   \<and> set [''ffmpeg'', ''-y'', ''-i'', ''in.mp4'', ''-f'', ''mp4'', ''out.mp4''] \<inter> set audio_flags = {}"
proof -
  let ?fp = "[(''format'', PStr ''mp4''), (''codec'', PStr ''aac''), (''preset'', PStr ''web''),
      (''parameters'', PDict [(''audio'', PDict [(''codec'', PStr ''aac''), (''bitrate'', PStr ''128k'')])])]"
  let ?md = "[(''streams'', PList [PDict [(''codec_type'', PStr ''video'')]])]"
  let ?ps = "[(''audio'', PDict [(''codec'', PStr ''aac''), (''bitrate'', PStr ''128k'')])]"
  let ?ss = "[PDict [(''codec_type'', PStr ''video'')]]"
  have h: "dict_get ?md ''streams'' (PList []) = PList ?ss \<and> list_all is_dict ?ss
      \<and> list_all (\<lambda>s. py_get s ''codec_type'' PNone \<noteq> Inr (PStr ''audio'')) ?ss
      \<and> map_of ?fp ''format'' = Some (PStr ''mp4'')
      \<and> map_of ?fp ''parameters'' = Some (PDict ?ps)
      \<and> map_of ?ps ''video'' = None \<and> map_of ?ps ''ffmpeg_options'' = None"
    by (simp add: dict_get_def)
  have n: "''in.mp4'' \<notin> set audio_flags \<and> ''mp4'' \<notin> set audio_flags \<and> ''out.mp4'' \<notin> set audio_flags"
    by (simp add: audio_flags_def)
  note t = branches_need_stream_and_section [of ?md ?fp "[]" "''in.mp4''" "''out.mp4''"]
  note t5 = t [THEN conjunct2, THEN conjunct2, THEN conjunct2, THEN conjunct2, THEN spec,
      THEN spec, THEN spec, THEN mp, OF h]
  from t5 [THEN conjunct1] have c: "build_command ''in.mp4'' ''out.mp4'' ?fp ?md =
      Inr [''ffmpeg'', ''-y'', ''-i'', ''in.mp4'', ''-f'', ''mp4'', ''out.mp4'']" by simp
  from t5 [THEN conjunct2, THEN mp, OF n]
  have d: "set [''ffmpeg'', ''-y'', ''-i'', ''in.mp4'', ''-f'', ''mp4'', ''out.mp4'']
      \<inter> set audio_flags = {}" by simp
  from c d show ?thesis by (intro conjI)
qed

text \<open>
  Claim C4 (as amended). Every command the builder returns is, in this order: the fixed
  prefix \<open>ffmpeg -y -i source\<close>, the video arguments, the audio arguments, the custom
  options (each converted by \<open>str\<close>, in the given order), the container pair
  \<open>-f format\<close> when the format is not empty, and the output path as the single last
  argument.
\<close>

theorem build_command_order:
  assumes "build_command src out fp md = Inr cmd"
  shows "\<exists>sv sa se sf.
           add_video_args fp md [] = Inr (map PStr sv)
         \<and> add_audio_args fp md [] = Inr (map PStr sa)
         \<and> add_custom_options fp [] = Inr (map PStr se)
         \<and> add_output_format fp [] = Inr (map PStr sf)
         \<and> cmd = [''ffmpeg'', ''-y'', ''-i'', src] @ sv @ sa @ se @ sf @ [out]
         \<and> (\<forall>ps opts. map_of fp ''parameters'' = Some (PDict ps)
                \<and> map_of ps ''ffmpeg_options'' = Some (PList opts) \<longrightarrow> se = map py_str opts)
         \<and> (\<forall>f. map_of fp ''format'' = Some (PStr f) \<longrightarrow>
                sf = (if f = [] then [] else [''-f'', f]))"
proof -
  let ?c0 = "[PStr ''ffmpeg'', PStr ''-y'', PStr ''-i'', PStr src]"
  from assms obtain c1 c2 c3 c4 where
    1: "add_video_args fp md ?c0 = Inr c1" and
    2: "add_audio_args fp md c1 = Inr c2" and
    3: "add_custom_options fp c2 = Inr c3" and
    4: "add_output_format fp c3 = Inr c4" and
    5: "the_strings (c4 @ [PStr out]) = Inr cmd"
    unfolding build_command_def ebind_eq_Inr by blast
  from 1 obtain v where v: "add_video_args fp md [] = Inr v" "c1 = ?c0 @ v"
    by (subst (asm) add_video_args_prefix) (auto simp: ebind_eq_Inr)
  from 2 obtain a where a: "add_audio_args fp md [] = Inr a" "c2 = c1 @ a"
    by (subst (asm) add_audio_args_prefix) (auto simp: ebind_eq_Inr)
  from 3 obtain e where e: "add_custom_options fp [] = Inr e" "c3 = c2 @ e"
    by (subst (asm) add_custom_options_prefix) (auto simp: ebind_eq_Inr)
  from 4 obtain f where f: "add_output_format fp [] = Inr f" "c4 = c3 @ f"
    by (subst (asm) add_output_format_prefix) (auto simp: ebind_eq_Inr)
  let ?s0 = "[''ffmpeg'', ''-y'', ''-i'', src]"
  have c0: "?c0 = map PStr ?s0" by simp
  have "?c0 @ v @ a @ e @ f @ [PStr out] = map PStr cmd"
    using the_strings_Inr [OF 5] v a e f by simp
  from map_eq_append6 [OF this] obtain sp sv sa se sf sq where
    cmd0: "cmd = sp @ sv @ sa @ se @ sf @ sq" and sp: "?c0 = map PStr sp"
    and sv: "v = map PStr sv" and sa: "a = map PStr sa" and se: "e = map PStr se"
    and sf: "f = map PStr sf" and sq: "[PStr out] = map PStr sq"
    by (elim exE conjE)
  from sp have "map PStr sp = map PStr ?s0" by simp
  then have sp': "sp = ?s0" by (simp only: map_PStr_eq)
  from sq have "map PStr sq = map PStr [out]" by simp
  then have sq': "sq = [out]" by (simp only: map_PStr_eq)
  have cmd: "cmd = [''ffmpeg'', ''-y'', ''-i'', src] @ sv @ sa @ se @ sf @ [out]"
    unfolding cmd0 sp' sq' ..
  have opts: "se = map py_str opts"
    if "map_of fp ''parameters'' = Some (PDict ps)" "map_of ps ''ffmpeg_options'' = Some (PList opts)"
    for ps opts
  proof -
    from that(2) have "''ffmpeg_options'' \<in> fst ` set ps"
      by (rule map_of_Some_in_keys)
    with that e(1) have "e = map (\<lambda>option. PStr (py_str option)) opts"
      by (simp add: add_custom_options_def)
    with se have "map PStr se = map PStr (map py_str opts)" by (simp add: comp_def)
    then show ?thesis by (simp only: map_PStr_eq)
  qed
  have fmt: "sf = (if fm = [] then [] else [''-f'', fm])"
    if "map_of fp ''format'' = Some (PStr fm)" for fm
  proof -
    from that f(1) have "f = (if fm = [] then [] else [PStr ''-f'', PStr fm])"
      by (auto simp: add_output_format_def split: if_splits)
    with sf have "map PStr sf = map PStr (if fm = [] then [] else [''-f'', fm])"
      by (cases "fm = []") simp_all
    then show ?thesis by (simp only: map_PStr_eq)
  qed
  show ?thesis
  proof (intro exI conjI allI impI)
    show "add_video_args fp md [] = Inr (map PStr sv)" using v(1) sv by simp
    show "add_audio_args fp md [] = Inr (map PStr sa)" using a(1) sa by simp
    show "add_custom_options fp [] = Inr (map PStr se)" using e(1) se by simp
    show "add_output_format fp [] = Inr (map PStr sf)" using f(1) sf by simp
    show "cmd = [''ffmpeg'', ''-y'', ''-i'', src] @ sv @ sa @ se @ sf @ [out]" by (rule cmd)
    show "se = map py_str opts"
      if "map_of fp ''parameters'' = Some (PDict ps) \<and> map_of ps ''ffmpeg_options'' = Some (PList opts)"
      for ps opts using opts [of ps opts] that by simp
    show "sf = (if fm = [] then [] else [''-f'', fm])"
      if "map_of fp ''format'' = Some (PStr fm)" for fm using that by (rule fmt)
  qed
qed

theorem build_command_order_witness:
  "build_command ''in.mov'' ''out.mp4''
     [(''format'', PStr ''mp4''), (''codec'', PStr ''h264''), (''preset'', PStr ''web''),
      (''parameters'', PDict
         [(''video'', PDict [(''crf'', PInt 23), (''preset'', PStr ''medium''),
                             (''movflags'', PStr ''+faststart'')]),
          (''audio'', PDict [(''codec'', PStr ''aac''), (''bitrate'', PStr ''128k'')]),
          (''ffmpeg_options'', PList [PStr ''-tune'', PStr ''film''])])]
     [(''streams'', PList [PDict [(''codec_type'', PStr ''video'')],
                           PDict [(''codec_type'', PStr ''audio'')]])]
   = Inr [''ffmpeg'', ''-y'', ''-i'', ''in.mov'', ''-c:v'', ''libx264'', ''-crf'', ''23'',
          ''-preset'', ''medium'', ''-movflags'', ''+faststart'', ''-c:a'', ''aac'',
          ''-b:a'', ''128k'', ''-tune'', ''film'', ''-f'', ''mp4'', ''out.mp4'']
   \<and> (\<exists>sv sa. [''ffmpeg'', ''-y'', ''-i'', ''in.mov'', ''-c:v'', ''libx264'', ''-crf'', ''23'',
          ''-preset'', ''medium'', ''-movflags'', ''+faststart'', ''-c:a'', ''aac'',
          ''-b:a'', ''128k'', ''-tune'', ''film'', ''-f'', ''mp4'', ''out.mp4'']
        = [''ffmpeg'', ''-y'', ''-i'', ''in.mov''] @ sv @ sa @ [''-tune'', ''film''] @ [''-f'', ''mp4'']
          @ [''out.mp4''])"
proof -
  let ?fp = "[(''format'', PStr ''mp4''), (''codec'', PStr ''h264''), (''preset'', PStr ''web''),
      (''parameters'', PDict
         [(''video'', PDict [(''crf'', PInt 23), (''preset'', PStr ''medium''),
                             (''movflags'', PStr ''+faststart'')]),
          (''audio'', PDict [(''codec'', PStr ''aac''), (''bitrate'', PStr ''128k'')]),
          (''ffmpeg_options'', PList [PStr ''-tune'', PStr ''film''])])]"
  let ?md = "[(''streams'', PList [PDict [(''codec_type'', PStr ''video'')],
                           PDict [(''codec_type'', PStr ''audio'')]])]"
  let ?cmd = "[''ffmpeg'', ''-y'', ''-i'', ''in.mov'', ''-c:v'', ''libx264'', ''-crf'', ''23'',
          ''-preset'', ''medium'', ''-movflags'', ''+faststart'', ''-c:a'', ''aac'',
          ''-b:a'', ''128k'', ''-tune'', ''film'', ''-f'', ''mp4'', ''out.mp4'']"
  have ev: "build_command ''in.mov'' ''out.mp4'' ?fp ?md = Inr ?cmd"
    by (simp add: builder_defs value_defs)
  from build_command_order [OF ev] obtain sv sa se sf where
    c: "?cmd = [''ffmpeg'', ''-y'', ''-i'', ''in.mov''] @ sv @ sa @ se @ sf @ [''out.mp4'']"
    and o: "\<forall>ps opts. map_of ?fp ''parameters'' = Some (PDict ps)
                \<and> map_of ps ''ffmpeg_options'' = Some (PList opts) \<longrightarrow> se = map py_str opts"
    and f: "\<forall>f. map_of ?fp ''format'' = Some (PStr f) \<longrightarrow> sf = (if f = [] then [] else [''-f'', f])"
    by (elim exE conjE)
  from o have se: "se = [''-tune'', ''film'']" by simp
  from f have sf: "sf = [''-f'', ''mp4'']" by simp
  from c have "\<exists>sv sa. ?cmd = [''ffmpeg'', ''-y'', ''-i'', ''in.mov''] @ sv @ sa
      @ [''-tune'', ''film''] @ [''-f'', ''mp4''] @ [''out.mp4'']"
    unfolding se sf by (intro exI)
  with ev show ?thesis by (intro conjI)
qed

text \<open>
  Claim C4 as stated fails: the container pair \<open>-f mp4\<close> is written after the custom
  options, so a flag of the builder follows the caller's flags.
\<close>

theorem format_flag_follows_custom_options:
  "build_command ''in.mov'' ''out.mp4''
     [(''format'', PStr ''mp4''), (''codec'', PStr ''h264''), (''preset'', PStr ''web''),
      (''parameters'', PDict [(''ffmpeg_options'', PList [PStr ''-tune'', PStr ''film''])])]
     [(''streams'', PList [])]
   = Inr [''ffmpeg'', ''-y'', ''-i'', ''in.mov'', ''-tune'', ''film'', ''-f'', ''mp4'', ''out.mp4'']"
  by (simp add: builder_defs value_defs)

text \<open>
  The builder of \<open>src/normalizer.py\<close> writes the pair \<open>-b:v 0\<close> after the CRF for
  \<open>vp9\<close> and \<open>av1\<close>.
\<close>

lemma src_video_args_vp9_av1:
  assumes "map_of vp ''codec'' = Some c" and "c = PStr ''vp9'' \<or> c = PStr ''av1''"
  shows "src_video_args (PDict vp) =
     Inr [PStr ''-c:v'', c, PStr ''-crf'', PStr (py_str (dict_get vp ''crf'' (PInt 30))),
          PStr ''-b:v'', PStr ''0'']"
proof -
  from assms(1) have ne: "vp \<noteq> []" by auto
  from assms(1) have c: "dict_get vp ''codec'' PNone = c" by (simp add: dict_get_def)
  from assms(2) show ?thesis
    by (rule disjE) (simp_all add: src_video_args_def ne c)
qed

text \<open>
  Claim C5 at the web preset with the codecs \<open>vp9\<close> and \<open>av1\<close> and a source with a video
  stream: \<open>_convert_media\<close> writes the codec, the CRF and the preset, and no
  \<open>-b:v 0\<close>.
\<close>

theorem vp9_av1_commands_lack_forced_bitrate:
  "ebind (resolve [(''format'', PStr ''webm'')] ''web'' False [])
     (\<lambda>fp. build_command ''in.mp4'' ''out.webm'' fp
            [(''streams'', PList [PDict [(''codec_type'', PStr ''video'')]])])
   = Inr [''ffmpeg'', ''-y'', ''-i'', ''in.mp4'', ''-c:v'', ''libvpx-vp9'', ''-crf'', ''28'',
          ''-preset'', ''medium'', ''-f'', ''webm'', ''out.webm'']
 \<and> ebind (resolve [(''format'', PStr ''mp4''), (''codec'', PStr ''av1'')] ''web'' False [])
     (\<lambda>fp. build_command ''in.mp4'' ''out.mp4'' fp
            [(''streams'', PList [PDict [(''codec_type'', PStr ''video'')]])])
   = Inr [''ffmpeg'', ''-y'', ''-i'', ''in.mp4'', ''-c:v'', ''libaom-av1'', ''-crf'', ''28'',
          ''-preset'', ''medium'', ''-movflags'', ''+faststart'', ''-f'', ''mp4'', ''out.mp4'']"
  by (simp add: resolve_defs builder_defs value_defs)

section \<open>Properties of output validation\<close>

lemmas validate_defs = validate_output_def validate_body_def validation_checks_def
  check_format_def check_video_codec_def check_audio_codec_def check_resolution_def
  check_size_def check_duration_def format_field_def first_stream_def has_stream_def
  fail_with_def note_issue_def parse_float_def parse_unsigned_float_def parse_mantissa_def
  parse_signed_def scale10_def

text \<open>
  Claim C10. \<open>_validate_output\<close> returns a validation record for every source metadata,
  output metadata and target format: when a check raises, the exception is caught, the
  record keeps the issues of the checks before it, \<open>passed\<close> is false and a validation
  error issue carrying the exception is appended; when no check raises, the record of the
  checks is returned.
\<close>

theorem validate_output_catches_exceptions:
  "(\<forall>e v. validate_body src out tf = (Some e, v) \<longrightarrow>
      validate_output src out tf = \<lparr>passed = False, issues = issues v @ [ValidationError e]\<rparr>)
 \<and> (\<forall>v. validate_body src out tf = (None, v) \<longrightarrow> validate_output src out tf = v)"
  by (simp add: validate_output_def fail_with_def)

theorem validate_output_catches_exceptions_witness:
  "validate_body []
     [(''streams'', PList [PDict [(''codec_type'', PStr ''audio''), (''codec_name'', PStr ''aac'')]])]
     [(''format'', PStr ''mp4'')]
   = (Some (KeyError ''parameters''), \<lparr>passed = False, issues = [ExpectedFormat ''mp4'' []]\<rparr>)
 \<and> validate_output []
     [(''streams'', PList [PDict [(''codec_type'', PStr ''audio''), (''codec_name'', PStr ''aac'')]])]
     [(''format'', PStr ''mp4'')]
   = \<lparr>passed = False,
      issues = [ExpectedFormat ''mp4'' [], ValidationError (KeyError ''parameters'')]\<rparr>
 \<and> validate_body
     [(''streams'', PList [PDict [(''codec_type'', PStr ''video''), (''width'', PStr ''N/A'')]])]
     [(''streams'', PList [PDict [(''codec_type'', PStr ''video''), (''width'', PInt 640)]])]
     []
   = (Some ValueError, \<lparr>passed = True, issues = []\<rparr>)
 \<and> validate_output
     [(''streams'', PList [PDict [(''codec_type'', PStr ''video''), (''width'', PStr ''N/A'')]])]
     [(''streams'', PList [PDict [(''codec_type'', PStr ''video''), (''width'', PInt 640)]])]
     []
   = \<lparr>passed = False, issues = [ValidationError ValueError]\<rparr>"
proof -
  let ?o1 = "[(''streams'', PList [PDict [(''codec_type'', PStr ''audio''), (''codec_name'', PStr ''aac'')]])]"
  let ?t1 = "[(''format'', PStr ''mp4'')]"
  let ?s2 = "[(''streams'', PList [PDict [(''codec_type'', PStr ''video''), (''width'', PStr ''N/A'')]])]"
  let ?o2 = "[(''streams'', PList [PDict [(''codec_type'', PStr ''video''), (''width'', PInt 640)]])]"
  have b1: "validate_body [] ?o1 ?t1
      = (Some (KeyError ''parameters''), \<lparr>passed = False, issues = [ExpectedFormat ''mp4'' []]\<rparr>)"
    by (simp add: validate_defs value_defs)
  have b2: "validate_body ?s2 ?o2 [] = (Some ValueError, \<lparr>passed = True, issues = []\<rparr>)"
    by (simp add: validate_defs value_defs)
  note t1 = validate_output_catches_exceptions [of "[]" ?o1 ?t1, THEN conjunct1, THEN spec, THEN spec,
      THEN mp, OF b1]
  note t2 = validate_output_catches_exceptions [of ?s2 ?o2 "[]", THEN conjunct1, THEN spec, THEN spec,
      THEN mp, OF b2]
  from b1 b2 t1 t2 show ?thesis by simp
qed

text \<open>
  The validator of \<open>src/normalizer.py\<close> returns at once, with one issue, when the output
  file is missing or empty.
\<close>

lemma src_validate_output_short_circuit:
  "(\<not> ex \<longrightarrow>
      src_validate_output ex sz duration streams encoding_params
        = Inr \<lparr>passed = False, issues = [OutputMissing]\<rparr>)
 \<and> (ex \<and> sz = 0 \<longrightarrow>
      src_validate_output ex sz duration streams encoding_params
        = Inr \<lparr>passed = False, issues = [OutputEmpty]\<rparr>)"
  by (simp add: src_validate_output_def)

text \<open>
  Claim C6 at an output whose video codec is \<open>vp8\<close> when \<open>vp9\<close> was requested: the video
  codec check only compares for the requested codecs \<open>h264\<close> and \<open>h265\<close>, so no issue is
  recorded and the validation passes. The alias cases of the claim hold: \<open>libx264\<close> is
  accepted for \<open>h264\<close> and \<open>aac_lc\<close> for \<open>aac\<close>.
\<close>

theorem video_codec_check_misses_vp8_for_vp9:
  "validate_output
     [(''format'', PDict [(''format_name'', PStr ''webm''), (''size'', PStr ''2000''),
                          (''duration'', PStr ''10.0'')]),
      (''streams'', PList [PDict [(''codec_type'', PStr ''video''), (''codec_name'', PStr ''h264''),
                                  (''width'', PInt 640), (''height'', PInt 480)]])]
     [(''format'', PDict [(''format_name'', PStr ''webm''), (''size'', PStr ''1000''),
                          (''duration'', PStr ''10.0'')]),
      (''streams'', PList [PDict [(''codec_type'', PStr ''video''), (''codec_name'', PStr ''vp8''),
                                  (''width'', PInt 640), (''height'', PInt 480)]])]
     [(''format'', PStr ''webm''), (''codec'', PStr ''vp9''), (''preset'', PStr ''web''),
      (''parameters'', PDict [])]
   = \<lparr>passed = True, issues = []\<rparr>
 \<and> check_video_codec
     [(''streams'', PList [PDict [(''codec_type'', PStr ''video''), (''codec_name'', PStr ''vp8'')]])]
     [(''codec'', PStr ''vp9'')] \<lparr>passed = True, issues = []\<rparr>
   = Inr \<lparr>passed = True, issues = []\<rparr>
 \<and> check_video_codec
     [(''streams'', PList [PDict [(''codec_type'', PStr ''video''), (''codec_name'', PStr ''libx264'')]])]
     [(''codec'', PStr ''h264'')] \<lparr>passed = True, issues = []\<rparr>
   = Inr \<lparr>passed = True, issues = []\<rparr>
 \<and> check_audio_codec
     [(''streams'', PList [PDict [(''codec_type'', PStr ''audio''), (''codec_name'', PStr ''aac_lc'')]])]
     [(''parameters'', PDict [(''audio'', PDict [(''codec'', PStr ''aac'')])])]
     \<lparr>passed = True, issues = []\<rparr>
   = Inr \<lparr>passed = True, issues = []\<rparr>"
  by (simp add: validate_defs value_defs)

text \<open>
  Claim C7 at an output of size zero: \<open>_validate_output\<close> of
  \<open>format_normalizer/normalizer.py\<close> has run the container, codec and resolution checks
  before the size check, and runs the duration check after it, so issues precede and
  follow the zero size issue.
\<close>

theorem checks_continue_after_zero_size:
  "validate_output
     [(''format'', PDict [(''format_name'', PStr ''mp4''), (''size'', PStr ''1000000''),
                          (''duration'', PStr ''60.0'')]),
      (''streams'', PList [PDict [(''codec_type'', PStr ''video''), (''codec_name'', PStr ''h264''),
                                  (''width'', PInt 1920), (''height'', PInt 1080)]])]
     [(''format'', PDict [(''format_name'', PStr ''avi''), (''size'', PStr ''0''),
                          (''duration'', PStr ''0.0'')]),
      (''streams'', PList [PDict [(''codec_type'', PStr ''video''), (''codec_name'', PStr ''mpeg4''),
                                  (''width'', PInt 640), (''height'', PInt 360)]])]
     [(''format'', PStr ''mp4''), (''codec'', PStr ''h264''), (''preset'', PStr ''web''),
      (''parameters'', PDict [])]
   = \<lparr>passed = False,
      issues = [ExpectedFormat ''mp4'' ''avi'', ExpectedVideoCodec ''h264'' ''mpeg4'',
                ResolutionReduced (800 / 9) 1920 1080 640 360, ZeroSize,
                DurationChanged 100 60 0]\<rparr>"
  by (simp add: validate_defs value_defs)

section \<open>Properties of frame rate parsing\<close>





section \<open>Properties of the pipeline\<close>

lemma normalize_validate_flag:
  "normalize e sp op tf p ai True =
     (case normalize e sp op tf p ai False of
        Inl x \<Rightarrow> Inl x
      | Inr r \<Rightarrow>
          (case resolve_with_ai e tf p ai of
             Inl x \<Rightarrow> Inl x
           | Inr (fp, an) \<Rightarrow>
               Inr (r\<lparr>validation_result :=
                        Some (validate_output (original r) (technical r) fp)\<rparr>)))"
  by (auto simp: normalize_def Let_def ebind_def split: sum.splits prod.splits)


lemma normalize_False_resolved:
  "normalize e sp op tf p ai False = Inr r \<Longrightarrow> \<exists>fp an. resolve_with_ai e tf p ai = Inr (fp, an)"
  by (auto simp: normalize_def Let_def ebind_def split: sum.splits prod.splits)

lemmas normalize_defs = normalize_def analyze_media_def resolve_with_ai_def convert_media_def
  parse_ffmpeg_output_def starts_with_def get_codec_info_def get_resolution_def
  calculate_quality_metrics_def video_metrics_def audio_metrics_def no_metrics_def
  calculate_compression_ratio_def

text \<open>
  Claim C8 (as amended). The validation never decides whether \<open>normalize\<close> returns:
  with validation requested it returns a result exactly when it does without, and raises
  the same exception otherwise; the result then carries the validation record of the
  source metadata, the output metadata and the resolved parameters, whatever its
  \<open>passed\<close> flag is, and is otherwise the same result. A run in which the source was
  probed, the parameters were resolved, the command was built, the encoder exited with
  zero and the output file exists returns a result with the validation record when the
  probe of the output succeeds and the result record can be assembled.
\<close>

theorem validation_never_fails_the_job:
  "(\<forall>r. normalize e sp op tf p ai True = Inr r \<longrightarrow>
      (\<exists>fp an. resolve_with_ai e tf p ai = Inr (fp, an)
         \<and> validation_result r = Some (validate_output (original r) (technical r) fp)
         \<and> normalize e sp op tf p ai False = Inr (r\<lparr>validation_result := None\<rparr>)))
 \<and> (\<forall>r. normalize e sp op tf p ai False = Inr r \<longrightarrow>
      (\<exists>v. normalize e sp op tf p ai True = Inr (r\<lparr>validation_result := Some v\<rparr>)))
 \<and> (\<forall>x. normalize e sp op tf p ai True = Inl x \<longleftrightarrow> normalize e sp op tf p ai False = Inl x)
 \<and> (\<forall>sm fp an cmd err om fmt codec dur res qm.
        analyze_media (source_probe e) sp = Inr sm
      \<and> resolve_with_ai e tf p ai = Inr (fp, an)
      \<and> build_command sp op fp sm = Inr cmd
      \<and> encoder e cmd = Inr (0, err)
      \<and> output_exists e
      \<and> analyze_media (output_probe e) op = Inr om
      \<and> format_field om ''format_name'' (PStr []) = Inr fmt
      \<and> get_codec_info om = Inr codec
      \<and> format_field om ''duration'' (PInt 0) = Inr dur
      \<and> get_resolution om = Inr res
      \<and> calculate_quality_metrics sm om = Inr qm
      \<longrightarrow> (\<exists>r. normalize e sp op tf p ai True = Inr r
             \<and> validation_result r = Some (validate_output sm om fp)))"
proof (intro conjI allI impI)
  fix r assume t: "normalize e sp op tf p ai True = Inr r"
  then obtain r0 where r0: "normalize e sp op tf p ai False = Inr r0"
    by (subst (asm) normalize_validate_flag) (auto split: sum.splits)
  from normalize_False_resolved [OF r0] obtain fp an where
    fp: "resolve_with_ai e tf p ai = Inr (fp, an)" by blast
  from t r0 fp have r: "r = r0\<lparr>validation_result :=
      Some (validate_output (original r0) (technical r0) fp)\<rparr>"
    by (subst (asm) normalize_validate_flag) simp
  have n: "validation_result r0 = None"
    using r0 by (auto simp: normalize_def Let_def ebind_def split: sum.splits prod.splits)
  have "validation_result r = Some (validate_output (original r) (technical r) fp)"
    by (simp add: r)
  moreover have "normalize e sp op tf p ai False = Inr (r\<lparr>validation_result := None\<rparr>)"
    using r0 n by (simp add: r)
  ultimately show "\<exists>fp an. resolve_with_ai e tf p ai = Inr (fp, an)
         \<and> validation_result r = Some (validate_output (original r) (technical r) fp)
         \<and> normalize e sp op tf p ai False = Inr (r\<lparr>validation_result := None\<rparr>)"
    using fp by blast
next
  fix r assume f: "normalize e sp op tf p ai False = Inr r"
  from normalize_False_resolved [OF f] obtain fp an where
    fp: "resolve_with_ai e tf p ai = Inr (fp, an)" by blast
  have "normalize e sp op tf p ai True
      = Inr (r\<lparr>validation_result := Some (validate_output (original r) (technical r) fp)\<rparr>)"
    by (subst normalize_validate_flag) (simp add: f fp)
  then show "\<exists>v. normalize e sp op tf p ai True = Inr (r\<lparr>validation_result := Some v\<rparr>)"
    by blast
next
  fix x
  show "normalize e sp op tf p ai True = Inl x \<longleftrightarrow> normalize e sp op tf p ai False = Inl x"
  proof (cases "normalize e sp op tf p ai False")
    case (Inl y)
    then show ?thesis by (subst normalize_validate_flag) simp
  next
    case (Inr r)
    from normalize_False_resolved [OF Inr] obtain fp an where
      "resolve_with_ai e tf p ai = Inr (fp, an)" by blast
    with Inr show ?thesis by (subst normalize_validate_flag) simp
  qed
next
  fix sm fp an cmd err om fmt codec dur res qm
  assume "analyze_media (source_probe e) sp = Inr sm
      \<and> resolve_with_ai e tf p ai = Inr (fp, an)
      \<and> build_command sp op fp sm = Inr cmd
      \<and> encoder e cmd = Inr (0, err)
      \<and> output_exists e
      \<and> analyze_media (output_probe e) op = Inr om
      \<and> format_field om ''format_name'' (PStr []) = Inr fmt
      \<and> get_codec_info om = Inr codec
      \<and> format_field om ''duration'' (PInt 0) = Inr dur
      \<and> get_resolution om = Inr res
      \<and> calculate_quality_metrics sm om = Inr qm"
  then show "\<exists>r. normalize e sp op tf p ai True = Inr r
             \<and> validation_result r = Some (validate_output sm om fp)"
    by (simp add: normalize_def convert_media_def Let_def)
qed

theorem validation_never_fails_the_job_witness:
  "\<exists>r. normalize
     \<lparr>source_probe = Probed
      [(''format'', PDict [(''format_name'', PStr ''mp4''), (''size'', PStr ''1000''), (''duration'', PStr ''10.0'')]),
       (''streams'', PList [PDict [(''codec_type'', PStr ''video''), (''codec_name'', PStr ''h264''),
                                   (''width'', PInt 640), (''height'', PInt 480)]])],
    output_probe = Probed
      [(''format'', PDict [(''format_name'', PStr ''avi''), (''size'', PStr ''1000''), (''duration'', PStr ''10.0'')]),
       (''streams'', PList [PDict [(''codec_type'', PStr ''video''), (''codec_name'', PStr ''h264''),
                                   (''width'', PInt 640), (''height'', PInt 480)]])],
    ai_outcome = Inr [], encoder = (\<lambda>cmd. Inr (0, [])), source_exists = True,
    output_exists = True, source_size = 1000, output_size = 1000\<rparr>
     ''in.mp4'' ''out.mp4'' [] ''web'' False True = Inr r
   \<and> validation_result r = Some \<lparr>passed = False, issues = [ExpectedFormat ''mp4'' ''avi'']\<rparr>
   \<and> normalize
     \<lparr>source_probe = Probed
      [(''format'', PDict [(''format_name'', PStr ''mp4''), (''size'', PStr ''1000''), (''duration'', PStr ''10.0'')]),
       (''streams'', PList [PDict [(''codec_type'', PStr ''video''), (''codec_name'', PStr ''h264''),
                                   (''width'', PInt 640), (''height'', PInt 480)]])],
    output_probe = Probed
      [(''format'', PDict [(''format_name'', PStr ''avi''), (''size'', PStr ''1000''), (''duration'', PStr ''10.0'')]),
       (''streams'', PList [PDict [(''codec_type'', PStr ''video''), (''codec_name'', PStr ''h264''),
                                   (''width'', PInt 640), (''height'', PInt 480)]])],
    ai_outcome = Inr [], encoder = (\<lambda>cmd. Inr (0, [])), source_exists = True,
    output_exists = True, source_size = 1000, output_size = 1000\<rparr>
     ''in.mp4'' ''out.mp4'' [] ''web'' False False = Inr (r\<lparr>validation_result := None\<rparr>)"
proof -
  let ?e = "\<lparr>source_probe = Probed
      [(''format'', PDict [(''format_name'', PStr ''mp4''), (''size'', PStr ''1000''), (''duration'', PStr ''10.0'')]),
       (''streams'', PList [PDict [(''codec_type'', PStr ''video''), (''codec_name'', PStr ''h264''),
                                   (''width'', PInt 640), (''height'', PInt 480)]])],
    output_probe = Probed
      [(''format'', PDict [(''format_name'', PStr ''avi''), (''size'', PStr ''1000''), (''duration'', PStr ''10.0'')]),
       (''streams'', PList [PDict [(''codec_type'', PStr ''video''), (''codec_name'', PStr ''h264''),
                                   (''width'', PInt 640), (''height'', PInt 480)]])],
    ai_outcome = Inr [], encoder = (\<lambda>cmd. Inr (0, [])), source_exists = True,
    output_exists = True, source_size = 1000, output_size = 1000\<rparr>"
  let ?r = "\<lparr>uri = ''out.mp4'', result_format = PStr ''avi'', result_codec = ''video:h264'',
      result_duration = PStr ''10.0'', file_size = 1000, resolution = Some (640, 480),
      original = [(''format'', PDict [(''format_name'', PStr ''mp4''), (''size'', PStr ''1000''), (''duration'', PStr ''10.0'')]),
       (''streams'', PList [PDict [(''codec_type'', PStr ''video''), (''codec_name'', PStr ''h264''),
                                   (''width'', PInt 640), (''height'', PInt 480)]])],
      technical = [(''format'', PDict [(''format_name'', PStr ''avi''), (''size'', PStr ''1000''), (''duration'', PStr ''10.0'')]),
       (''streams'', PList [PDict [(''codec_type'', PStr ''video''), (''codec_name'', PStr ''h264''),
                                   (''width'', PInt 640), (''height'', PInt 480)]])],
      transformations = [],
      metrics = \<lparr>resolution_preservation = Some 100, bitrate_ratio = None,
                  estimated_visual_quality = None, audio_bitrate_ratio = None,
                  estimated_audio_quality = None\<rparr>,
      compression_ratio = 1,
      validation_result = Some \<lparr>passed = False, issues = [ExpectedFormat ''mp4'' ''avi'']\<rparr>,
      ai_analysis = None\<rparr>"
  have ev: "normalize ?e ''in.mp4'' ''out.mp4'' [] ''web'' False True = Inr ?r"
    by (simp add: normalize_defs resolve_defs builder_defs validate_defs value_defs)
  from validation_never_fails_the_job [of ?e "''in.mp4''" "''out.mp4''" "[]" "''web''" False,
      THEN conjunct1, THEN spec, THEN mp, OF ev]
  have f: "normalize ?e ''in.mp4'' ''out.mp4'' [] ''web'' False False
      = Inr (?r\<lparr>validation_result := None\<rparr>)"
    by (elim exE conjE)
  have v: "validation_result ?r = Some \<lparr>passed = False, issues = [ExpectedFormat ''mp4'' ''avi'']\<rparr>"
    by simp
  from ev v f show ?thesis by (intro exI [of _ ?r] conjI)
qed

text \<open>
  Claim C8 as stated fails. In both runs the encoder exits with zero and the output file
  exists. In the first, FFprobe fails on the output and \<open>normalize\<close> raises before the
  validation is reached. In the second, the output metadata carries a width that is not
  a number: the validation catches the exception and reports \<open>passed = False\<close>, and
  \<open>normalize\<close> then raises when it assembles the result, where the same conversion is
  made outside any handler.
\<close>

theorem output_probe_failure_fails_the_job:
  "normalize
     \<lparr>source_probe = Probed
      [(''format'', PDict [(''format_name'', PStr ''mp4''), (''size'', PStr ''1000''), (''duration'', PStr ''10.0'')]),
       (''streams'', PList [PDict [(''codec_type'', PStr ''video''), (''codec_name'', PStr ''h264''),
                                   (''width'', PInt 640), (''height'', PInt 480)]])],
    output_probe = ProbeExit 1 ''Invalid data found when processing input'',
    ai_outcome = Inr [], encoder = (\<lambda>cmd. Inr (0, [])), source_exists = True,
    output_exists = True, source_size = 1000, output_size = 0\<rparr>
     ''in.mp4'' ''out.mp4'' [] ''web'' False True
   = Inl (RuntimeError
        ''Media analysis failed: FFprobe failed with return code 1: Invalid data found when processing input'')
 \<and> (\<exists>fp. prepare_format_parameters [] ''web'' = Inr fp
     \<and> validate_output
      [(''format'', PDict [(''format_name'', PStr ''mp4''), (''size'', PStr ''1000''), (''duration'', PStr ''10.0'')]),
       (''streams'', PList [PDict [(''codec_type'', PStr ''video''), (''codec_name'', PStr ''h264''),
                                   (''width'', PInt 640), (''height'', PInt 480)]])]
      [(''format'', PDict [(''format_name'', PStr ''mp4''), (''size'', PStr ''1000''), (''duration'', PStr ''10.0'')]),
       (''streams'', PList [PDict [(''codec_type'', PStr ''video''), (''codec_name'', PStr ''h264''),
                                   (''width'', PStr ''N/A''), (''height'', PInt 480)]])]
      fp
   = \<lparr>passed = False, issues = [ValidationError ValueError]\<rparr>)
 \<and> normalize
     \<lparr>source_probe = Probed
      [(''format'', PDict [(''format_name'', PStr ''mp4''), (''size'', PStr ''1000''), (''duration'', PStr ''10.0'')]),
       (''streams'', PList [PDict [(''codec_type'', PStr ''video''), (''codec_name'', PStr ''h264''),
                                   (''width'', PInt 640), (''height'', PInt 480)]])],
    output_probe = Probed
      [(''format'', PDict [(''format_name'', PStr ''mp4''), (''size'', PStr ''1000''), (''duration'', PStr ''10.0'')]),
       (''streams'', PList [PDict [(''codec_type'', PStr ''video''), (''codec_name'', PStr ''h264''),
                                   (''width'', PStr ''N/A''), (''height'', PInt 480)]])],
    ai_outcome = Inr [], encoder = (\<lambda>cmd. Inr (0, [])), source_exists = True,
    output_exists = True, source_size = 1000, output_size = 1000\<rparr>
     ''in.mp4'' ''out.mp4'' [] ''web'' False True
   = Inl ValueError"
  by (simp add: normalize_defs resolve_defs builder_defs validate_defs value_defs)

end
